theory Spec2Isabelle
  imports Main
begin

section \<open>JavaScript values\<close>

text \<open>
  Values that cross the gateway are JSON values. A JavaScript string is modelled by the
  bytes of its UTF-8 encoding, which is what the URL encoder works on. Numbers are
  restricted to integers (identifiers, counts, page sizes): \<open>JNum n\<close> stands for a
  Number only when \<open>n\<close> is one, and it is printed in plain decimal, which is how
  JavaScript prints an integer of magnitude below \<open>10^21\<close>; the statements about a
  page size given by the caller carry that bound. The value \<open>undefined\<close> is
  \<open>None\<close> of \<open>json option\<close>. A \<open>JObj\<close> lists the object's own properties in
  \<open>Object.entries\<close> order; a JavaScript object holds every key once.
\<close>

datatype json =
    JNull
  | JBool bool
  | JNum int
  | JStr string
  | JArr "json list"
  | JObj "(string \<times> json) list"

type_synonym jsval = "json option"

text \<open>\<open>Array.prototype.join\<close> on strings that are already converted.\<close>

fun join :: "string \<Rightarrow> string list \<Rightarrow> string" where
  "join sep [] = []"
| "join sep [x] = x"
| "join sep (x # y # ys) = x @ sep @ join sep (y # ys)"

fun string_of_nat :: "nat \<Rightarrow> string" where
  "string_of_nat n =
     (if n < 10 then [''0123456789'' ! n]
      else string_of_nat (n div 10) @ [''0123456789'' ! (n mod 10)])"

declare string_of_nat.simps [simp del]

definition number_to_string :: "int \<Rightarrow> string" where
  "number_to_string i =
     (if i < 0 then CHR ''-'' # string_of_nat (nat (- i)) else string_of_nat (nat i))"

text \<open>
  \<open>String(v)\<close>, which is also what a template literal applies. An array is its elements
  joined by a comma, \<open>null\<close> elements giving the empty string.
\<close>

fun js_String :: "json \<Rightarrow> string" where
  "js_String JNull = ''null''"
| "js_String (JBool b) = (if b then ''true'' else ''false'')"
| "js_String (JNum n) = number_to_string n"
| "js_String (JStr s) = s"
| "js_String (JArr xs) = join '','' (map (\<lambda>x. if x = JNull then [] else js_String x) xs)"
| "js_String (JObj kvs) = ''[object Object]''"

text \<open>\<open>value.join(sep)\<close> on an array of JSON values.\<close>

definition array_join :: "string \<Rightarrow> json list \<Rightarrow> string" where
  "array_join sep xs = join sep (map (\<lambda>x. if x = JNull then [] else js_String x) xs)"

text \<open>Truthiness, as \<open>||\<close> and \<open>!\<close> test it.\<close>

fun truthy :: "jsval \<Rightarrow> bool" where
  "truthy None = False"
| "truthy (Some JNull) = False"
| "truthy (Some (JBool b)) = b"
| "truthy (Some (JNum n)) = (n \<noteq> 0)"
| "truthy (Some (JStr s)) = (s \<noteq> [])"
| "truthy (Some (JArr xs)) = True"
| "truthy (Some (JObj kvs)) = True"

text \<open>
  Property read \<open>v.name\<close> on a value that is not \<open>null\<close> (reading a property of
  \<open>null\<close> throws; the callers below treat that case themselves). Primitives and arrays
  have no property called \<open>message\<close> or \<open>code\<close>, the only names read here.
\<close>

fun get_prop :: "json \<Rightarrow> string \<Rightarrow> jsval" where
  "get_prop (JObj kvs) name = map_of kvs name"
| "get_prop v name = None"

definition startsWith :: "string \<Rightarrow> string \<Rightarrow> bool" where
  "startsWith s p = (take (length p) s = p)"

definition is_digit :: "char \<Rightarrow> bool" where
  "is_digit c = (48 \<le> (of_char c :: nat) \<and> (of_char c :: nat) \<le> 57)"

definition digits_value :: "string \<Rightarrow> nat" where
  "digits_value ds = foldl (\<lambda>a c. 10 * a + (of_char c - 48)) 0 ds"

text \<open>
  The order of an object's own properties: the keys that are array indices (canonical
  decimal numerals below \<open>2^32 - 1 = 4294967295\<close>) come first, in ascending numeric order, then the
  other keys in the order in which they were created. Writing a property keeps the
  position of an existing key and gives it the new value; a new key takes its place in
  that order. Spreading \<open>{...base, ...more}\<close> writes the entries of \<open>more\<close> in order.
\<close>

definition is_index :: "string \<Rightarrow> bool" where
  "is_index k =
     (k \<noteq> [] \<and> list_all is_digit k \<and> (k = ''0'' \<or> hd k \<noteq> CHR ''0'') \<and>
      digits_value k < 4294967295)"

fun obj_update :: "(string \<times> 'v) list \<Rightarrow> string \<Rightarrow> 'v \<Rightarrow> (string \<times> 'v) list" where
  "obj_update [] k v = []"
| "obj_update ((k', v') # rest) k v =
     (if k' = k then (k, v) # rest else (k', v') # obj_update rest k v)"

text \<open>Whether the new key \<open>k\<close> is listed before the existing key \<open>k'\<close>.\<close>

definition index_before :: "string \<Rightarrow> string \<Rightarrow> bool" where
  "index_before k k' =
     (if is_index k then (if is_index k' then digits_value k < digits_value k' else True)
      else False)"

fun obj_insert :: "(string \<times> 'v) list \<Rightarrow> string \<Rightarrow> 'v \<Rightarrow> (string \<times> 'v) list" where
  "obj_insert [] k v = [(k, v)]"
| "obj_insert ((k', v') # rest) k v =
     (if index_before k k' then (k, v) # (k', v') # rest
      else (k', v') # obj_insert rest k v)"

definition obj_put :: "(string \<times> 'v) list \<Rightarrow> string \<Rightarrow> 'v \<Rightarrow> (string \<times> 'v) list" where
  "obj_put obj k v = (if k \<in> fst ` set obj then obj_update obj k v else obj_insert obj k v)"

definition spread :: "(string \<times> 'v) list \<Rightarrow> (string \<times> 'v) list \<Rightarrow> (string \<times> 'v) list" where
  "spread base more = foldl (\<lambda>obj (k, v). obj_put obj k v) base more"

section \<open>QueryEncoder: \<open>buildQueryString\<close>\<close>

text \<open>
  The serializer of \<open>URLSearchParams.toString()\<close> (application/x-www-form-urlencoded):
  a space becomes \<open>+\<close>, ASCII letters and digits and \<open>* - . _\<close> stay, every other byte
  becomes \<open>%XX\<close> with upper-case hexadecimal digits.
\<close>

definition hex_digit :: "nat \<Rightarrow> char" where
  "hex_digit n = ''0123456789ABCDEF'' ! n"

definition percent_byte :: "char \<Rightarrow> string" where
  "percent_byte c = [CHR ''%'', hex_digit (of_char c div 16), hex_digit (of_char c mod 16)]"

definition is_alpha :: "char \<Rightarrow> bool" where
  "is_alpha c =
     ((65 \<le> (of_char c :: nat) \<and> (of_char c :: nat) \<le> 90) \<or>
      (97 \<le> (of_char c :: nat) \<and> (of_char c :: nat) \<le> 122))"

definition urlencode_byte :: "char \<Rightarrow> string" where
  "urlencode_byte c =
     (if c = CHR '' '' then ''+''
      else if is_digit c \<or> is_alpha c \<or> c \<in> set ''*-._'' then [c]
      else percent_byte c)"

definition urlencode :: "string \<Rightarrow> string" where
  "urlencode s = concat (map urlencode_byte s)"

type_synonym search_params = "(string \<times> string) list"

text \<open>
  \<open>URLSearchParams.set\<close>: the first pair of that name takes the value and the later
  pairs of that name are removed; with no such pair, one is appended.
\<close>

fun sp_set :: "search_params \<Rightarrow> string \<Rightarrow> string \<Rightarrow> search_params" where
  "sp_set [] k v = [(k, v)]"
| "sp_set ((k', v') # rest) k v =
     (if k' = k then (k, v) # filter (\<lambda>p. fst p \<noteq> k) rest
      else (k', v') # sp_set rest k v)"

definition sp_toString :: "search_params \<Rightarrow> string" where
  "sp_toString sp = join ''&'' (map (\<lambda>(k, v). urlencode k @ ''='' @ urlencode v) sp)"

text \<open>One turn of the loop over \<open>Object.entries(params)\<close>.\<close>

fun encode_entry :: "search_params \<Rightarrow> string \<times> jsval \<Rightarrow> search_params" where
  "encode_entry sp (key, None) = sp"
| "encode_entry sp (key, Some JNull) = sp"
| "encode_entry sp (key, Some (JArr xs)) = sp_set sp key (array_join '','' xs)"
| "encode_entry sp (key, Some (JBool b)) = sp_set sp key (if b then ''true'' else ''false'')"
| "encode_entry sp (key, Some v) = sp_set sp key (js_String v)"

definition searchParams :: "(string \<times> jsval) list \<Rightarrow> search_params" where
  "searchParams params = foldl encode_entry [] params"

definition buildQueryString :: "(string \<times> jsval) list \<Rightarrow> string" where
  "buildQueryString params =
     (let queryString = sp_toString (searchParams params)
      in if queryString = [] then [] else ''?'' @ queryString)"

text \<open>The pairs that follow the first pair of a query string, each behind its \<open>&\<close>.\<close>

definition more_pairs :: "search_params \<Rightarrow> string" where
  "more_pairs sp = (if sp = [] then [] else ''&'' @ sp_toString sp)"

section \<open>RequestExecutor and Paginator: the REST client\<close>

text \<open>
  The network and the runtime's library are the environment: \<open>fetch\<close> answers a request
  (given the requests issued before it) with a response or rejects with an \<open>Error\<close> of
  some message; \<open>JSON_parse\<close> is \<open>JSON.parse\<close> (\<open>Inl\<close> the message of its
  \<open>SyntaxError\<close>), which \<open>response.json()\<close> applies to the body too; \<open>base64\<close> is
  the encoder behind \<open>Buffer.toString('base64')\<close>. Every call threads the list of
  requests issued so far, so that "no request was issued" is a statement about it.
\<close>

record response =
  status :: nat
  body_text :: string
  res_headers :: "string \<Rightarrow> string option"

datatype form_part = FilePart string string string | TextPart string

datatype payload = JsonBody json | FormBody "(string \<times> form_part) list"

record http_request =
  req_method :: string
  url :: string
  req_headers :: "(string \<times> string) list"
  body :: "payload option"

type_synonym trace = "http_request list"

text \<open>What a call throws: an \<open>Error\<close> object with its message, or any other value.\<close>

datatype thrown = Error string | NonError

record env =
  JSON_parse :: "string \<Rightarrow> string + json"
  fetch :: "trace \<Rightarrow> http_request \<Rightarrow> string + response"
  base64 :: "string \<Rightarrow> string"

record WordPressClient =
  siteUrl :: string
  username :: string
  appPassword :: string
  apiBase :: string

text \<open>\<open>siteUrl.replace(/\/+$/, '')\<close>: the trailing slashes go.\<close>

definition strip_trailing_slashes :: "string \<Rightarrow> string" where
  "strip_trailing_slashes s = rev (dropWhile (\<lambda>c. c = CHR ''/'') (rev s))"

definition new_WordPressClient :: "string \<Rightarrow> string \<Rightarrow> string \<Rightarrow> WordPressClient" where
  "new_WordPressClient site user pw =
     \<lparr>siteUrl = strip_trailing_slashes site, username = user, appPassword = pw,
      apiBase = strip_trailing_slashes site @ ''/wp-json/wp/v2''\<rparr>"

definition getAuthHeader :: "env \<Rightarrow> WordPressClient \<Rightarrow> string" where
  "getAuthHeader e c = ''Basic '' @ base64 e (username c @ '':'' @ appPassword c)"

record RequestInit =
  opt_method :: "string option"
  opt_body :: "payload option"
  opt_headers :: "(string \<times> string) list"

definition no_options :: RequestInit where
  "no_options = \<lparr>opt_method = None, opt_body = None, opt_headers = []\<rparr>"

definition do_fetch :: "env \<Rightarrow> http_request \<Rightarrow> trace \<Rightarrow> (string + response) \<times> trace" where
  "do_fetch e rq tr = (fetch e tr rq, tr @ [rq])"

definition ok :: "response \<Rightarrow> bool" where
  "ok r = (200 \<le> status r \<and> status r \<le> 299)"

text \<open>\<open>a || b\<close>, and the conversion a template literal applies to the result.\<close>

definition or_else :: "jsval \<Rightarrow> jsval \<Rightarrow> jsval" where
  "or_else a b = (if truthy a then a else b)"

definition js_template :: "jsval \<Rightarrow> string" where
  "js_template v = (case v of None \<Rightarrow> ''undefined'' | Some x \<Rightarrow> js_String x)"

text \<open>
  The \<open>try\<close>/\<open>catch\<close> of \<open>request\<close> and \<open>requestWithHeaders\<close>: a body that does not
  parse, or that parses to \<open>null\<close> (whose property read throws), leaves the raw body.
\<close>

definition errorMessage :: "env \<Rightarrow> string \<Rightarrow> string" where
  "errorMessage e errorBody =
     (case JSON_parse e errorBody of
        Inl syntax_error \<Rightarrow> errorBody
      | Inr JNull \<Rightarrow> errorBody
      | Inr errorJson \<Rightarrow>
          js_template
            (or_else (or_else (get_prop errorJson ''message'') (get_prop errorJson ''code''))
               (Some (JStr errorBody))))"

definition api_error :: "nat \<Rightarrow> string \<Rightarrow> thrown" where
  "api_error st msg = Error (''WordPress API error ('' @ string_of_nat st @ ''): '' @ msg)"

definition resolve :: "WordPressClient \<Rightarrow> string \<Rightarrow> string" where
  "resolve c endpoint = (if startsWith endpoint ''http'' then endpoint else apiBase c @ endpoint)"

definition json_request :: "env \<Rightarrow> WordPressClient \<Rightarrow> string \<Rightarrow> RequestInit \<Rightarrow> http_request" where
  "json_request e c endpoint options =
     \<lparr>req_method = (case opt_method options of None \<Rightarrow> ''GET'' | Some m \<Rightarrow> m),
      url = resolve c endpoint,
      req_headers =
        spread [(''Authorization'', getAuthHeader e c), (''Content-Type'', ''application/json'')]
          (opt_headers options),
      body = opt_body options\<rparr>"

definition request ::
  "env \<Rightarrow> WordPressClient \<Rightarrow> string \<Rightarrow> RequestInit \<Rightarrow> trace \<Rightarrow> (thrown + json) \<times> trace" where
  "request e c endpoint options tr =
     (case do_fetch e (json_request e c endpoint options) tr of
        (Inl failure, tr') \<Rightarrow> (Inl (Error failure), tr')
      | (Inr response, tr') \<Rightarrow>
          if \<not> ok response
          then (Inl (api_error (status response) (errorMessage e (body_text response))), tr')
          else (case JSON_parse e (body_text response) of
                  Inl syntax_error \<Rightarrow> (Inl (Error syntax_error), tr')
                | Inr d \<Rightarrow> (Inr d, tr')))"

text \<open>
  \<open>parseInt(s, 10)\<close>: leading white space is skipped, one sign is read, then the
  longest run of decimal digits; with no digit the result is \<open>NaN\<close>. What follows the
  digits is ignored. (With the radix given as 10 no \<open>0x\<close> prefix is recognised.)

  White space is what ECMAScript's \<open>StrWhiteSpaceChar\<close> is: TAB, LF, VT, FF, CR, space,
  U+00A0, U+1680, U+2000 to U+200A, U+2028, U+2029, U+202F, U+205F, U+3000 and U+FEFF,
  here in their UTF-8 bytes. \<open>white_space_length\<close> is the number of bytes of the
  white-space character a string starts with, 0 when it starts with none.

  The result is a Number. An integer of magnitude up to \<open>2^53 = 9007199254740992\<close> is one, and is
  \<open>Num\<close>; beyond, the result is the Number that JavaScript rounds the integer to,
  which the model does not compute: \<open>Rounded n\<close> stands for it. (The sign of a zero
  is not kept.)
\<close>

datatype number = NaN | Num int | Rounded int

definition white_space_length :: "string \<Rightarrow> nat" where
  "white_space_length s =
     (let b = map of_char s :: nat list
      in if take 1 b \<in> set [[9], [10], [11], [12], [13], [32]] then 1
         else if take 2 b = [194, 160] then 2
         else if take 3 b \<in> set [[225, 154, 128], [226, 128, 168], [226, 128, 169],
                                 [226, 128, 175], [226, 129, 159], [227, 128, 128],
                                 [239, 187, 191]]
                 \<or> (take 2 b = [226, 128] \<and> length b \<ge> 3 \<and> 128 \<le> b ! 2 \<and> b ! 2 \<le> 138)
         then 3
         else 0)"

function trim_start :: "string \<Rightarrow> string" where
  "trim_start s =
     (if white_space_length s = 0 then s else trim_start (drop (white_space_length s) s))"
  by pat_completeness auto
termination
proof (relation "measure length")
  show "wf (measure length)" by simp
next
  fix s :: string
  assume space: "white_space_length s \<noteq> 0"
  have "white_space_length [] = 0" by (simp add: white_space_length_def)
  with space have "s \<noteq> []" by auto
  with space show "(drop (white_space_length s) s, s) \<in> measure length" by simp
qed

declare trim_start.simps [simp del]

definition parseInt :: "string \<Rightarrow> number" where
  "parseInt s =
     (let t = trim_start s;
          sign = (if startsWith t ''-'' then - 1 else 1);
          u = (if startsWith t ''-'' \<or> startsWith t ''+'' then tl t else t);
          z = takeWhile is_digit u
      in if z = [] then NaN
         else if digits_value z \<le> 9007199254740992 then Num (sign * int (digits_value z))
         else Rounded (sign * int (digits_value z)))"

text \<open>\<open>response.headers.get(name) || '0'\<close>: a missing or empty header gives \<open>'0'\<close>.\<close>

definition header_or_zero :: "response \<Rightarrow> string \<Rightarrow> string" where
  "header_or_zero r name =
     (case res_headers r name of None \<Rightarrow> ''0'' | Some v \<Rightarrow> if v = [] then ''0'' else v)"

record list_result =
  data :: json
  total :: number
  totalPages :: number

definition requestWithHeaders ::
  "env \<Rightarrow> WordPressClient \<Rightarrow> string \<Rightarrow> RequestInit \<Rightarrow> trace \<Rightarrow> (thrown + list_result) \<times> trace"
  where
  "requestWithHeaders e c endpoint options tr =
     (case do_fetch e (json_request e c endpoint options) tr of
        (Inl failure, tr') \<Rightarrow> (Inl (Error failure), tr')
      | (Inr response, tr') \<Rightarrow>
          if \<not> ok response
          then (Inl (api_error (status response) (errorMessage e (body_text response))), tr')
          else (case JSON_parse e (body_text response) of
                  Inl syntax_error \<Rightarrow> (Inl (Error syntax_error), tr')
                | Inr d \<Rightarrow>
                    (Inr \<lparr>data = d,
                          total = parseInt (header_or_zero response ''x-wp-total''),
                          totalPages = parseInt (header_or_zero response ''x-wp-totalpages'')\<rparr>,
                     tr')))"

subsection \<open>Media upload\<close>

record upload_options =
  title :: "string option"
  caption :: "string option"
  description :: "string option"
  alt_text :: "string option"
  post :: "int option"

definition text_field :: "string \<Rightarrow> string option \<Rightarrow> (string \<times> form_part) list" where
  "text_field name v =
     (case v of None \<Rightarrow> [] | Some s \<Rightarrow> if s = [] then [] else [(name, TextPart s)])"

definition upload_form ::
  "string \<Rightarrow> string \<Rightarrow> string \<Rightarrow> upload_options \<Rightarrow> (string \<times> form_part) list" where
  "upload_form file filename contentType options =
     [(''file'', FilePart file filename contentType)]
     @ text_field ''title'' (title options)
     @ text_field ''caption'' (caption options)
     @ text_field ''description'' (description options)
     @ text_field ''alt_text'' (alt_text options)
     @ (case post options of
          None \<Rightarrow> []
        | Some n \<Rightarrow> if n = 0 then [] else [(''post'', TextPart (number_to_string n))])"

definition uploadMedia ::
  "env \<Rightarrow> WordPressClient \<Rightarrow> string \<Rightarrow> string \<Rightarrow> string \<Rightarrow> upload_options \<Rightarrow> trace
     \<Rightarrow> (thrown + json) \<times> trace" where
  "uploadMedia e c file filename contentType options tr =
     (case do_fetch e
             \<lparr>req_method = ''POST'', url = apiBase c @ ''/media'',
              req_headers = [(''Authorization'', getAuthHeader e c)],
              body = Some (FormBody (upload_form file filename contentType options))\<rparr> tr of
        (Inl failure, tr') \<Rightarrow> (Inl (Error failure), tr')
      | (Inr response, tr') \<Rightarrow>
          if \<not> ok response
          then (Inl (api_error (status response) (body_text response)), tr')
          else (case JSON_parse e (body_text response) of
                  Inl syntax_error \<Rightarrow> (Inl (Error syntax_error), tr')
                | Inr d \<Rightarrow> (Inr d, tr')))"

subsection \<open>ResourceClient operations\<close>

text \<open>
  A parameter object is the list of its entries. \<open>{ per_page: n, ...params }\<close> is the
  spread of \<open>params\<close> over the one default entry. An optional argument with a default
  (\<open>force: boolean = false\<close>) is an \<open>option\<close>: \<open>None\<close> when the caller leaves it out.
\<close>

definition GET :: RequestInit where
  "GET = no_options"

definition POST :: "json \<Rightarrow> RequestInit" where
  "POST input = \<lparr>opt_method = Some ''POST'', opt_body = Some (JsonBody input), opt_headers = []\<rparr>"

definition DELETE :: RequestInit where
  "DELETE = \<lparr>opt_method = Some ''DELETE'', opt_body = None, opt_headers = []\<rparr>"

definition list_endpoint :: "string \<Rightarrow> int \<Rightarrow> (string \<times> jsval) list \<Rightarrow> string" where
  "list_endpoint path n params =
     path @ buildQueryString (spread [(''per_page'', Some (JNum n))] params)"

definition listPosts_endpoint :: "(string \<times> jsval) list \<Rightarrow> string" where
  "listPosts_endpoint params = list_endpoint ''/posts'' 20 params"

definition listPages_endpoint :: "(string \<times> jsval) list \<Rightarrow> string" where
  "listPages_endpoint params = list_endpoint ''/pages'' 20 params"

definition listComments_endpoint :: "(string \<times> jsval) list \<Rightarrow> string" where
  "listComments_endpoint params = list_endpoint ''/comments'' 20 params"

definition listMedia_endpoint :: "(string \<times> jsval) list \<Rightarrow> string" where
  "listMedia_endpoint params = list_endpoint ''/media'' 20 params"

definition listCategories_endpoint :: "(string \<times> jsval) list \<Rightarrow> string" where
  "listCategories_endpoint params = list_endpoint ''/categories'' 100 params"

definition listTags_endpoint :: "(string \<times> jsval) list \<Rightarrow> string" where
  "listTags_endpoint params = list_endpoint ''/tags'' 100 params"

definition listUsers_endpoint :: string where
  "listUsers_endpoint = ''/users''"

text \<open>For the statements: the \<open>GET\<close> request that the client issues for a target.\<close>

definition get_request :: "env \<Rightarrow> WordPressClient \<Rightarrow> string \<Rightarrow> http_request" where
  "get_request e c target =
     \<lparr>req_method = ''GET'', url = apiBase c @ target,
      req_headers = [(''Authorization'', getAuthHeader e c),
                     (''Content-Type'', ''application/json'')],
      body = None\<rparr>"

definition listPosts ::
  "env \<Rightarrow> WordPressClient \<Rightarrow> (string \<times> jsval) list \<Rightarrow> trace \<Rightarrow> (thrown + list_result) \<times> trace"
  where
  "listPosts e c params tr = requestWithHeaders e c (listPosts_endpoint params) GET tr"

definition listPages ::
  "env \<Rightarrow> WordPressClient \<Rightarrow> (string \<times> jsval) list \<Rightarrow> trace \<Rightarrow> (thrown + list_result) \<times> trace"
  where
  "listPages e c params tr = requestWithHeaders e c (listPages_endpoint params) GET tr"

definition listComments ::
  "env \<Rightarrow> WordPressClient \<Rightarrow> (string \<times> jsval) list \<Rightarrow> trace \<Rightarrow> (thrown + list_result) \<times> trace"
  where
  "listComments e c params tr = requestWithHeaders e c (listComments_endpoint params) GET tr"

definition listMedia ::
  "env \<Rightarrow> WordPressClient \<Rightarrow> (string \<times> jsval) list \<Rightarrow> trace \<Rightarrow> (thrown + list_result) \<times> trace"
  where
  "listMedia e c params tr = requestWithHeaders e c (listMedia_endpoint params) GET tr"

definition listCategories ::
  "env \<Rightarrow> WordPressClient \<Rightarrow> (string \<times> jsval) list \<Rightarrow> trace \<Rightarrow> (thrown + list_result) \<times> trace"
  where
  "listCategories e c params tr = requestWithHeaders e c (listCategories_endpoint params) GET tr"

definition listTags ::
  "env \<Rightarrow> WordPressClient \<Rightarrow> (string \<times> jsval) list \<Rightarrow> trace \<Rightarrow> (thrown + list_result) \<times> trace"
  where
  "listTags e c params tr = requestWithHeaders e c (listTags_endpoint params) GET tr"

definition listUsers ::
  "env \<Rightarrow> WordPressClient \<Rightarrow> trace \<Rightarrow> (thrown + list_result) \<times> trace" where
  "listUsers e c tr = requestWithHeaders e c listUsers_endpoint GET tr"

text \<open>Deletes. \<open>`?force=${force}`\<close> prints the boolean as \<open>true\<close> or \<open>false\<close>.\<close>

definition deletePost_endpoint :: "int \<Rightarrow> bool option \<Rightarrow> string" where
  "deletePost_endpoint postId force =
     (let force = (case force of None \<Rightarrow> False | Some b \<Rightarrow> b);
          query = (if force then ''?force=true'' else [])
      in ''/posts/'' @ number_to_string postId @ query)"

definition deletePage_endpoint :: "int \<Rightarrow> bool option \<Rightarrow> string" where
  "deletePage_endpoint pageId force =
     (let force = (case force of None \<Rightarrow> False | Some b \<Rightarrow> b);
          query = (if force then ''?force=true'' else [])
      in ''/pages/'' @ number_to_string pageId @ query)"

definition deleteComment_endpoint :: "int \<Rightarrow> bool option \<Rightarrow> string" where
  "deleteComment_endpoint commentId force =
     (let force = (case force of None \<Rightarrow> False | Some b \<Rightarrow> b);
          query = (if force then ''?force=true'' else [])
      in ''/comments/'' @ number_to_string commentId @ query)"

definition deleteMedia_endpoint :: "int \<Rightarrow> bool option \<Rightarrow> string" where
  "deleteMedia_endpoint mediaId force =
     (let force = (case force of None \<Rightarrow> True | Some b \<Rightarrow> b)
      in ''/media/'' @ number_to_string mediaId @ ''?force='' @ js_String (JBool force))"

definition deletePost ::
  "env \<Rightarrow> WordPressClient \<Rightarrow> int \<Rightarrow> bool option \<Rightarrow> trace \<Rightarrow> (thrown + json) \<times> trace" where
  "deletePost e c postId force tr = request e c (deletePost_endpoint postId force) DELETE tr"

definition deletePage ::
  "env \<Rightarrow> WordPressClient \<Rightarrow> int \<Rightarrow> bool option \<Rightarrow> trace \<Rightarrow> (thrown + json) \<times> trace" where
  "deletePage e c pageId force tr = request e c (deletePage_endpoint pageId force) DELETE tr"

definition deleteComment ::
  "env \<Rightarrow> WordPressClient \<Rightarrow> int \<Rightarrow> bool option \<Rightarrow> trace \<Rightarrow> (thrown + json) \<times> trace" where
  "deleteComment e c commentId force tr =
     request e c (deleteComment_endpoint commentId force) DELETE tr"

definition deleteMedia ::
  "env \<Rightarrow> WordPressClient \<Rightarrow> int \<Rightarrow> bool option \<Rightarrow> trace \<Rightarrow> (thrown + json) \<times> trace" where
  "deleteMedia e c mediaId force tr = request e c (deleteMedia_endpoint mediaId force) DELETE tr"

text \<open>Updates post the input object (the value given to \<open>JSON.stringify\<close>) to the resource.\<close>

definition updatePost ::
  "env \<Rightarrow> WordPressClient \<Rightarrow> int \<Rightarrow> json \<Rightarrow> trace \<Rightarrow> (thrown + json) \<times> trace" where
  "updatePost e c postId input tr =
     request e c (''/posts/'' @ number_to_string postId) (POST input) tr"

definition updatePage ::
  "env \<Rightarrow> WordPressClient \<Rightarrow> int \<Rightarrow> json \<Rightarrow> trace \<Rightarrow> (thrown + json) \<times> trace" where
  "updatePage e c pageId input tr =
     request e c (''/pages/'' @ number_to_string pageId) (POST input) tr"

definition updateComment ::
  "env \<Rightarrow> WordPressClient \<Rightarrow> int \<Rightarrow> json \<Rightarrow> trace \<Rightarrow> (thrown + json) \<times> trace" where
  "updateComment e c commentId input tr =
     request e c (''/comments/'' @ number_to_string commentId) (POST input) tr"

definition updateMedia ::
  "env \<Rightarrow> WordPressClient \<Rightarrow> int \<Rightarrow> json \<Rightarrow> trace \<Rightarrow> (thrown + json) \<times> trace" where
  "updateMedia e c mediaId options tr =
     request e c (''/media/'' @ number_to_string mediaId) (POST options) tr"

definition updateSettings ::
  "env \<Rightarrow> WordPressClient \<Rightarrow> json \<Rightarrow> trace \<Rightarrow> (thrown + json) \<times> trace" where
  "updateSettings e c settings tr = request e c ''/settings'' (POST settings) tr"

section \<open>Tool handlers\<close>

text \<open>
  A handler's reply is the text it returns. The text of a successful update is composed
  from fields of the returned resource; that composition is not modelled, the reply
  \<open>Composed r\<close> stands for it. An exception that leaves the handler is \<open>Thrown\<close>.
\<close>

datatype tool_result = Text string | Composed json | Thrown thrown

text \<open>
  \<open>Object.fromEntries(Object.entries(updateData).filter(([, v]) => v !== undefined))\<close>
\<close>

definition cleanData :: "(string \<times> jsval) list \<Rightarrow> (string \<times> json) list" where
  "cleanData updateData = List.map_filter (\<lambda>(k, v). map_option (Pair k) v) updateData"

definition finish :: "(thrown + json) \<times> trace \<Rightarrow> tool_result \<times> trace" where
  "finish r = (case r of (Inl err, tr) \<Rightarrow> (Thrown err, tr) | (Inr d, tr) \<Rightarrow> (Composed d, tr))"

definition update_post ::
  "env \<Rightarrow> WordPressClient \<Rightarrow> int \<Rightarrow> (string \<times> jsval) list \<Rightarrow> trace \<Rightarrow> tool_result \<times> trace" where
  "update_post e c post_id updateData tr =
     (if length (cleanData updateData) = 0
      then (Text ''Error: No fields to update were provided.'', tr)
      else finish (updatePost e c post_id (JObj (cleanData updateData)) tr))"

definition update_page ::
  "env \<Rightarrow> WordPressClient \<Rightarrow> int \<Rightarrow> (string \<times> jsval) list \<Rightarrow> trace \<Rightarrow> tool_result \<times> trace" where
  "update_page e c page_id updateData tr =
     (if length (cleanData updateData) = 0
      then (Text ''Error: No fields to update were provided.'', tr)
      else finish (updatePage e c page_id (JObj (cleanData updateData)) tr))"

definition update_media ::
  "env \<Rightarrow> WordPressClient \<Rightarrow> int \<Rightarrow> (string \<times> jsval) list \<Rightarrow> trace \<Rightarrow> tool_result \<times> trace" where
  "update_media e c media_id updateData tr =
     (if length (cleanData updateData) = 0
      then (Text ''Error: No fields to update were provided.'', tr)
      else finish (updateMedia e c media_id (JObj (cleanData updateData)) tr))"

definition update_site_settings ::
  "env \<Rightarrow> WordPressClient \<Rightarrow> (string \<times> jsval) list \<Rightarrow> trace \<Rightarrow> tool_result \<times> trace" where
  "update_site_settings e c args tr =
     (if length (cleanData args) = 0
      then (Text ''Error: No settings to update were provided.'', tr)
      else finish (updateSettings e c (JObj (cleanData args)) tr))"

subsection \<open>Bulk comment moderation\<close>

record moderation_result =
  item_id :: int
  success :: bool
  error :: "string option"

text \<open>\<open>error instanceof Error ? error.message : 'Unknown error'\<close>\<close>

definition error_text :: "thrown \<Rightarrow> string" where
  "error_text err = (case err of Error m \<Rightarrow> m | NonError \<Rightarrow> ''Unknown error'')"

text \<open>
  The \<open>for\<close> loop over \<open>args.comment_ids\<close>, with \<open>results\<close> as the array built so far.
\<close>

fun moderate_each ::
  "env \<Rightarrow> WordPressClient \<Rightarrow> string \<Rightarrow> int list \<Rightarrow> moderation_result list \<Rightarrow> trace
     \<Rightarrow> moderation_result list \<times> trace" where
  "moderate_each e c st [] results tr = (results, tr)"
| "moderate_each e c st (commentId # rest) results tr =
     (case updateComment e c commentId (JObj [(''status'', JStr st)]) tr of
        (Inr comment, tr') \<Rightarrow>
          moderate_each e c st rest
            (results @ [\<lparr>item_id = commentId, success = True, error = None\<rparr>]) tr'
      | (Inl err, tr') \<Rightarrow>
          moderate_each e c st rest
            (results @ [\<lparr>item_id = commentId, success = False, error = Some (error_text err)\<rparr>])
            tr')"

record bulk_report =
  successful :: nat
  failed :: nat
  details :: "moderation_result list"

definition bulk_moderate_comments ::
  "env \<Rightarrow> WordPressClient \<Rightarrow> int list \<Rightarrow> string \<Rightarrow> trace \<Rightarrow> bulk_report \<times> trace" where
  "bulk_moderate_comments e c comment_ids st tr =
     (case moderate_each e c st comment_ids [] tr of
        (results, tr') \<Rightarrow>
          (\<lparr>successful = length (filter (\<lambda>r. success r) results),
            failed = length (filter (\<lambda>r. \<not> success r) results),
            details = results\<rparr>, tr'))"

text \<open>
  For the statement of the bulk property: the request that moderating one comment
  issues, and the entry the report owes an item, given the outcome of that item's own
  update.
\<close>

definition moderation_request :: "env \<Rightarrow> WordPressClient \<Rightarrow> string \<Rightarrow> int \<Rightarrow> http_request" where
  "moderation_request e c st i =
     json_request e c (''/comments/'' @ number_to_string i) (POST (JObj [(''status'', JStr st)]))"

definition expected_entry :: "int \<Rightarrow> thrown + json \<Rightarrow> moderation_result" where
  "expected_entry i outcome =
     (case outcome of
        Inr comment \<Rightarrow> \<lparr>item_id = i, success = True, error = None\<rparr>
      | Inl (Error m) \<Rightarrow> \<lparr>item_id = i, success = False, error = Some m\<rparr>
      | Inl NonError \<Rightarrow> \<lparr>item_id = i, success = False, error = Some ''Unknown error''\<rparr>)"

section \<open>AccessGate: \<open>requireApiKey\<close>\<close>

text \<open>
  The two request headers the middleware reads, \<open>None\<close> when the request does not carry
  them. \<open>API_KEY\<close> is the environment variable, \<open>None\<close> when unset. A string is falsy
  when it is missing or empty.
\<close>

record headers =
  x_api_key :: "string option"
  authorization :: "string option"

datatype reply = Status nat string | Stream | Forwarded nat | Silent

datatype middleware = Next | Respond reply

definition truthy_string :: "string option \<Rightarrow> bool" where
  "truthy_string s = (case s of None \<Rightarrow> False | Some v \<Rightarrow> v \<noteq> [])"

definition providedKey :: "headers \<Rightarrow> string option" where
  "providedKey hs =
     (if truthy_string (x_api_key hs) then x_api_key hs
      else if (case authorization hs of None \<Rightarrow> False | Some a \<Rightarrow> startsWith a ''Bearer '')
      then map_option (drop 7) (authorization hs)
      else if truthy_string (authorization hs) then authorization hs
      else None)"

definition requireApiKey :: "string option \<Rightarrow> headers \<Rightarrow> middleware" where
  "requireApiKey API_KEY hs =
     (if \<not> truthy_string API_KEY then Next
      else if \<not> truthy_string (providedKey hs) then Respond (Status 401 ''Unauthorized'')
      else if providedKey hs \<noteq> API_KEY then Respond (Status 403 ''Forbidden'')
      else Next)"

section \<open>SessionRegistry: the \<open>/sse\<close> and \<open>/messages\<close> endpoints\<close>

text \<open>
  A transport is known by a number (the identity of the object). \<open>sseTransports\<close> is the
  \<open>Map\<close> of the server; \<open>closed\<close> holds the transports whose \<open>close()\<close> was called.
  The session identifier is minted by the transport's constructor and
  \<open>server.connect\<close> belongs to the SDK: both are inputs of the \<open>/sse\<close> handler
  (\<open>connect = None\<close> when it returns, otherwise the message it throws and whether the
  response headers were already sent).
\<close>

record registry =
  sseTransports :: "string \<Rightarrow> nat option"
  closed :: "nat set"

definition no_sessions :: registry where
  "no_sessions = \<lparr>sseTransports = Map.empty, closed = {}\<rparr>"

definition sse_handler ::
  "string \<Rightarrow> nat \<Rightarrow> (string \<times> bool) option \<Rightarrow> registry \<Rightarrow> reply \<times> registry" where
  "sse_handler sessionId transport connect reg =
     (let reg' = reg\<lparr>sseTransports := (sseTransports reg)(sessionId \<mapsto> transport)\<rparr>
      in case connect of
           None \<Rightarrow> (Stream, reg')
         | Some (message, headersSent) \<Rightarrow>
             (if headersSent then Silent else Status 500 ''SSE connection failed'', reg'))"

definition get_sse ::
  "string option \<Rightarrow> headers \<Rightarrow> string \<Rightarrow> nat \<Rightarrow> (string \<times> bool) option \<Rightarrow> registry
     \<Rightarrow> reply \<times> registry" where
  "get_sse API_KEY hs sessionId transport connect reg =
     (case requireApiKey API_KEY hs of
        Respond r \<Rightarrow> (r, reg)
      | Next \<Rightarrow> sse_handler sessionId transport connect reg)"

text \<open>The listener \<open>req.on('close', ...)\<close> of the session \<open>(sessionId, transport)\<close>.\<close>

definition on_close :: "string \<Rightarrow> nat \<Rightarrow> registry \<Rightarrow> registry" where
  "on_close sessionId transport reg =
     reg\<lparr>sseTransports := (sseTransports reg)(sessionId := None),
         closed := insert transport (closed reg)\<rparr>"

text \<open>
  \<open>POST /messages\<close>. \<open>sessionId\<close> is the query parameter, \<open>None\<close> when the URL has
  none. \<open>Forwarded t\<close>: the request was handed to \<open>handlePostMessage\<close> of transport
  \<open>t\<close>, which answers it (or throws, and the handler answers 500 when no header was
  sent yet); what the transport does with a message is the SDK's part.
\<close>

definition messages_handler :: "string option \<Rightarrow> registry \<Rightarrow> reply" where
  "messages_handler sessionId reg =
     (case sessionId of
        None \<Rightarrow> Status 400 ''Missing sessionId parameter''
      | Some sid \<Rightarrow>
          if sid = [] then Status 400 ''Missing sessionId parameter''
          else (case sseTransports reg sid of
                  None \<Rightarrow> Status 404 ''Session not found''
                | Some transport \<Rightarrow> Forwarded transport))"

definition post_messages :: "string option \<Rightarrow> headers \<Rightarrow> string option \<Rightarrow> registry \<Rightarrow> reply" where
  "post_messages API_KEY hs sessionId reg =
     (case requireApiKey API_KEY hs of
        Respond r \<Rightarrow> r
      | Next \<Rightarrow> messages_handler sessionId reg)"

section \<open>Sample environments\<close>

text \<open>
  Concrete inputs for the instances below: a client for \<open>https://example.com/\<close> with
  the credentials \<open>admin:pw\<close> (whose base64 form is \<open>YWRtaW46cHc=\<close>), and
  environments whose network answers every request with one given response, or answers
  one URL with a second response. \<open>sample_parse\<close> is \<open>JSON.parse\<close> on the four
  bodies that occur.
\<close>

definition sample_client :: WordPressClient where
  "sample_client = new_WordPressClient ''https://example.com/'' ''admin'' ''pw''"

definition quoted :: "string \<Rightarrow> string" where
  "quoted s = CHR 0x22 # s @ [CHR 0x22]"

definition bad_request_body :: string where
  "bad_request_body =
     ''{'' @ quoted ''message'' @ '':'' @ quoted ''bad request'' @ '',''
       @ quoted ''code'' @ '':'' @ quoted ''rest_invalid'' @ ''}''"

definition empty_message_body :: string where
  "empty_message_body =
     ''{'' @ quoted ''message'' @ '':'' @ quoted [] @ '',''
       @ quoted ''code'' @ '':'' @ quoted ''rest_invalid'' @ ''}''"

definition sample_parse :: "string \<Rightarrow> string + json" where
  "sample_parse s =
     (if s = bad_request_body
      then Inr (JObj [(''message'', JStr ''bad request''), (''code'', JStr ''rest_invalid'')])
      else if s = empty_message_body
      then Inr (JObj [(''message'', JStr []), (''code'', JStr ''rest_invalid'')])
      else if s = ''{}'' then Inr (JObj [])
      else if s = ''[]'' then Inr (JArr [])
      else Inl ''Unexpected token'')"

definition answering :: "response \<Rightarrow> env" where
  "answering r =
     \<lparr>JSON_parse = sample_parse, fetch = (\<lambda>tr rq. Inr r), base64 = (\<lambda>s. ''YWRtaW46cHc='')\<rparr>"

definition answering_but :: "string \<Rightarrow> response \<Rightarrow> response \<Rightarrow> env" where
  "answering_but u r' r =
     \<lparr>JSON_parse = sample_parse, fetch = (\<lambda>tr rq. if url rq = u then Inr r' else Inr r),
      base64 = (\<lambda>s. ''YWRtaW46cHc='')\<rparr>"

definition plain_response :: "nat \<Rightarrow> string \<Rightarrow> response" where
  "plain_response st b = \<lparr>status = st, body_text = b, res_headers = Map.empty\<rparr>"

section \<open>Properties of the REST client\<close>

subsection \<open>Every call issues exactly one request\<close>

lemma request_trace:
  "snd (request e c endpoint options tr) = tr @ [json_request e c endpoint options]"
  by (simp add: request_def do_fetch_def split: sum.splits)

lemma requestWithHeaders_trace:
  "snd (requestWithHeaders e c endpoint options tr) = tr @ [json_request e c endpoint options]"
  by (simp add: requestWithHeaders_def do_fetch_def split: sum.splits)

lemma resolve_relative: "resolve c (CHR ''/'' # rest) = apiBase c @ CHR ''/'' # rest"
  by (simp add: resolve_def startsWith_def)

subsection \<open>The force flag of the delete operations\<close>

text \<open>
  Claim C9. Deleting a post, a page or a comment sends \<open>?force=true\<close> only when the
  caller passes \<open>force = true\<close>; when the argument is left out it defaults to false and
  the target carries no force parameter. Deleting a media item always sends a force
  parameter, \<open>?force=true\<close> when the argument is left out (default true) and
  \<open>?force=false\<close> only when the caller passes false. The statement gives the request
  each operation issues.
\<close>

theorem delete_force_asymmetry:
  "snd (deletePost e c i force tr) =
     tr @ [\<lparr>req_method = ''DELETE'',
            url = apiBase c @ ''/posts/'' @ number_to_string i
                  @ (if force = Some True then ''?force=true'' else []),
            req_headers = [(''Authorization'', getAuthHeader e c),
                           (''Content-Type'', ''application/json'')],
            body = None\<rparr>] \<and>
   snd (deletePage e c i force tr) =
     tr @ [\<lparr>req_method = ''DELETE'',
            url = apiBase c @ ''/pages/'' @ number_to_string i
                  @ (if force = Some True then ''?force=true'' else []),
            req_headers = [(''Authorization'', getAuthHeader e c),
                           (''Content-Type'', ''application/json'')],
            body = None\<rparr>] \<and>
   snd (deleteComment e c i force tr) =
     tr @ [\<lparr>req_method = ''DELETE'',
            url = apiBase c @ ''/comments/'' @ number_to_string i
                  @ (if force = Some True then ''?force=true'' else []),
            req_headers = [(''Authorization'', getAuthHeader e c),
                           (''Content-Type'', ''application/json'')],
            body = None\<rparr>] \<and>
   snd (deleteMedia e c i force tr) =
     tr @ [\<lparr>req_method = ''DELETE'',
            url = apiBase c @ ''/media/'' @ number_to_string i
                  @ (if force = Some False then ''?force=false'' else ''?force=true''),
            req_headers = [(''Authorization'', getAuthHeader e c),
                           (''Content-Type'', ''application/json'')],
            body = None\<rparr>]"
proof -
  have hdrs: "json_request e c (CHR ''/'' # rest) DELETE =
      \<lparr>req_method = ''DELETE'', url = apiBase c @ CHR ''/'' # rest,
       req_headers = [(''Authorization'', getAuthHeader e c),
                      (''Content-Type'', ''application/json'')],
       body = None\<rparr>" for rest
    by (simp add: json_request_def DELETE_def spread_def resolve_relative)
  show ?thesis
    by (cases force)
       (simp_all add: deletePost_def deletePage_def deleteComment_def deleteMedia_def
          request_trace hdrs deletePost_endpoint_def deletePage_endpoint_def
          deleteComment_endpoint_def deleteMedia_endpoint_def)
qed

section \<open>Properties of the query encoder\<close>

subsection \<open>Object spread over one default entry\<close>

lemma obj_update_keys: "map fst (obj_update obj k v) = map fst obj"
  by (induction obj) auto

lemma obj_update_lookup:
  "map_of (obj_update obj k v) x =
     (if x = k \<and> map_of obj k \<noteq> None then Some v else map_of obj x)"
  by (induction obj) auto

lemma obj_insert_keys: "fst ` set (obj_insert obj k v) = insert k (fst ` set obj)"
proof (induction obj)
  case Nil
  then show ?case by simp
next
  case (Cons p obj)
  obtain a b where p: "p = (a, b)" by (cases p)
  show ?case
    using Cons.IH by (cases "index_before k a") (simp_all add: p insert_commute)
qed

lemma obj_insert_distinct:
  "k \<notin> fst ` set obj \<Longrightarrow> distinct (map fst obj) \<Longrightarrow> distinct (map fst (obj_insert obj k v))"
proof (induction obj)
  case Nil
  then show ?case by simp
next
  case (Cons p obj)
  obtain a b where p: "p = (a, b)" by (cases p)
  from Cons.prems p have fresh: "k \<noteq> a" "k \<notin> fst ` set obj"
    and d: "a \<notin> fst ` set obj" "distinct (map fst obj)"
    by auto
  have "a \<notin> fst ` set (obj_insert obj k v)"
    using fresh d by (simp add: obj_insert_keys)
  moreover have "distinct (map fst (obj_insert obj k v))"
    using Cons.IH fresh d by simp
  ultimately show ?case using fresh d by (simp add: p)
qed

lemma obj_insert_lookup:
  "k \<notin> fst ` set obj \<Longrightarrow>
   map_of (obj_insert obj k v) x = (if x = k then Some v else map_of obj x)"
  by (induction obj) (auto simp: map_of_eq_None_iff)

lemma obj_insert_last: "\<not> is_index k \<Longrightarrow> obj_insert obj k v = obj @ [(k, v)]"
  by (induction obj) (auto simp: index_before_def)

lemma obj_put_lookup: "map_of (obj_put obj k v) x = (if x = k then Some v else map_of obj x)"
  by (simp add: obj_put_def obj_update_lookup obj_insert_lookup map_of_eq_None_iff)

lemma obj_put_distinct:
  "distinct (map fst obj) \<Longrightarrow> distinct (map fst (obj_put obj k v))"
  by (simp add: obj_put_def obj_update_keys obj_insert_distinct)

lemma spread_distinct:
  "distinct (map fst base) \<Longrightarrow> distinct (map fst (spread base ps))"
proof (induction ps arbitrary: base)
  case Nil
  then show ?case by (simp add: spread_def)
next
  case (Cons p ps)
  obtain k v where p: "p = (k, v)" by (cases p)
  have "spread base (p # ps) = spread (obj_put base k v) ps"
    by (simp add: spread_def p)
  with Cons.IH[OF obj_put_distinct[OF Cons.prems]] show ?case by simp
qed

lemma spread_lookup:
  "distinct (map fst ps) \<Longrightarrow>
   map_of (spread base ps) x = (case map_of ps x of None \<Rightarrow> map_of base x | Some v \<Rightarrow> Some v)"
proof (induction ps arbitrary: base)
  case Nil
  then show ?case by (simp add: spread_def)
next
  case (Cons p ps)
  obtain k v where p: "p = (k, v)" by (cases p)
  with Cons.prems have fresh: "k \<notin> fst ` set ps" and rest: "distinct (map fst ps)"
    by auto
  then have none: "map_of ps k = None" by (simp add: map_of_eq_None_iff)
  have "spread base (p # ps) = spread (obj_put base k v) ps"
    by (simp add: spread_def p)
  then have "map_of (spread base (p # ps)) x =
      (case map_of ps x of None \<Rightarrow> map_of (obj_put base k v) x | Some w \<Rightarrow> Some w)"
    using Cons.IH[OF rest] by simp
  then show ?case
    using none by (auto simp: obj_put_lookup p split: option.splits)
qed

lemma spread_over_default:
  "distinct (map fst ps) \<Longrightarrow> \<forall>key \<in> fst ` set ps. \<not> is_index key \<Longrightarrow> k \<notin> fst ` set b \<Longrightarrow>
   fst ` set b \<inter> fst ` set ps = {} \<Longrightarrow>
   spread ((k, d) # b) ps =
     (k, case map_of ps k of None \<Rightarrow> d | Some v \<Rightarrow> v) # b @ filter (\<lambda>p. fst p \<noteq> k) ps"
proof (induction ps arbitrary: d b)
  case Nil
  then show ?case by (simp add: spread_def)
next
  case (Cons p ps)
  obtain k' v' where p: "p = (k', v')" by (cases p)
  from Cons.prems p have plain: "\<not> is_index k'" and plain_rest: "\<forall>key \<in> fst ` set ps. \<not> is_index key"
    by auto
  show ?case
  proof (cases "k' = k")
    case True
    with Cons.prems p have nk: "k \<notin> fst ` set ps" by auto
    then have m: "map_of ps k = None" by (simp add: map_of_eq_None_iff)
    have "spread ((k, d) # b) (p # ps) = spread ((k, v') # b) ps"
      using True p by (simp add: spread_def obj_put_def)
    also have "\<dots> = (k, v') # b @ filter (\<lambda>p. fst p \<noteq> k) ps"
      using Cons.IH[of b v'] Cons.prems plain_rest m by auto
    finally show ?thesis using True p by simp
  next
    case False
    with Cons.prems p have fresh: "k' \<notin> fst ` set b" by auto
    have "obj_put ((k, d) # b) k' v' = (k, d) # b @ [(k', v')]"
      using False fresh plain obj_insert_last[of k' "(k, d) # b" v'] by (simp add: obj_put_def)
    then have "spread ((k, d) # b) (p # ps) = spread ((k, d) # (b @ [(k', v')])) ps"
      using p by (simp add: spread_def)
    also have "\<dots> = (k, case map_of ps k of None \<Rightarrow> d | Some v \<Rightarrow> v)
                     # (b @ [(k', v')]) @ filter (\<lambda>p. fst p \<noteq> k) ps"
      using Cons.IH[of "b @ [(k', v')]" d] Cons.prems p False plain_rest by auto
    finally show ?thesis using False p by simp
  qed
qed

subsection \<open>The loop over the entries\<close>

lemma encode_entry_other:
  "fst p \<noteq> k \<Longrightarrow> encode_entry ((k, s) # sp) p = (k, s) # encode_entry sp p"
  by (cases "(sp, p)" rule: encode_entry.cases) auto

lemma searchParams_first:
  "k \<notin> fst ` set rest \<Longrightarrow>
   foldl encode_entry ((k, s) # sp) rest = (k, s) # foldl encode_entry sp rest"
  by (induction rest arbitrary: sp) (auto simp: encode_entry_other)

lemma sp_set_same: "filter (\<lambda>p. fst p = k) (sp_set sp k v) = [(k, v)]"
  by (induction sp) (auto simp: filter_empty_conv)

lemma sp_set_other: "k' \<noteq> k \<Longrightarrow>
   filter (\<lambda>p. fst p = k) (sp_set sp k' v) = filter (\<lambda>p. fst p = k) sp"
  by (induction sp) (auto intro: filter_cong)

lemma encode_entry_keeps:
  "fst p \<noteq> k \<Longrightarrow>
   filter (\<lambda>q. fst q = k) (encode_entry sp p) = filter (\<lambda>q. fst q = k) sp"
  by (cases "(sp, p)" rule: encode_entry.cases) (auto simp: sp_set_other)

lemma entries_keep:
  "k \<notin> fst ` set ps \<Longrightarrow>
   filter (\<lambda>q. fst q = k) (foldl encode_entry sp ps) = filter (\<lambda>q. fst q = k) sp"
  by (induction ps arbitrary: sp) (auto simp: encode_entry_keeps)

lemma array_entry_once:
  assumes "distinct (map fst params)" and "(k, Some (JArr xs)) \<in> set params"
  shows "filter (\<lambda>q. fst q = k) (searchParams params) = [(k, array_join '','' xs)]"
proof -
  from assms(2) obtain before after where
    split: "params = before @ (k, Some (JArr xs)) # after"
    by (auto simp: in_set_conv_decomp)
  with assms(1) have "k \<notin> fst ` set after" by auto
  then show ?thesis
    by (simp add: split searchParams_def entries_keep sp_set_same)
qed

subsection \<open>Serialization\<close>

lemma sp_toString_Cons:
  "sp_toString ((k, v) # sp) = urlencode k @ ''='' @ urlencode v @ more_pairs sp"
  by (cases sp) (auto simp: sp_toString_def more_pairs_def)

lemma sp_toString_nonempty: "sp \<noteq> [] \<Longrightarrow> sp_toString sp \<noteq> []"
  by (cases sp) (auto simp: sp_toString_Cons)

lemma urlencode_append: "urlencode (a @ b) = urlencode a @ urlencode b"
  by (simp add: urlencode_def)

lemma urlencode_Cons: "urlencode (c # s) = urlencode_byte c @ urlencode s"
  by (simp add: urlencode_def)

lemma urlencode_comma: "urlencode_byte CHR '','' = ''%2C''"
  by (simp add: urlencode_byte_def is_digit_def is_alpha_def percent_byte_def hex_digit_def)

lemma urlencode_join: "urlencode (join '','' ss) = join ''%2C'' (map urlencode ss)"
proof (induction "'',''" ss rule: join.induct)
  case (3 x y ys)
  then show ?case by (simp add: urlencode_append urlencode_Cons urlencode_comma)
qed (simp_all add: urlencode_def)

lemma urlencode_digit:
  assumes "n < 10"
  shows "urlencode_byte (''0123456789'' ! n) = [''0123456789'' ! n]"
proof -
  from assms have "n \<in> {0, 1, 2, 3, 4, 5, 6, 7, 8, 9}" by auto
  then show ?thesis
    by (auto simp: urlencode_byte_def is_digit_def)
qed

lemma urlencode_string_of_nat: "urlencode (string_of_nat n) = string_of_nat n"
proof (induction n rule: string_of_nat.induct)
  case (1 n)
  show ?case
  proof (cases "n < 10")
    case True
    then show ?thesis
      using urlencode_digit[of n] by (subst (1 2) string_of_nat.simps) (simp add: urlencode_def)
  next
    case False
    have "n mod 10 < 10" by simp
    then show ?thesis using False 1 urlencode_digit[of "n mod 10"]
      by (subst (1 2) string_of_nat.simps) (simp add: urlencode_append, simp add: urlencode_def)
  qed
qed

lemma urlencode_number: "urlencode (number_to_string m) = number_to_string m"
  using urlencode_string_of_nat
  by (simp add: number_to_string_def)
     (simp add: urlencode_def urlencode_byte_def is_digit_def is_alpha_def)

lemma urlencode_per_page: "urlencode ''per_page'' = ''per_page''"
  by (simp add: urlencode_def urlencode_byte_def is_digit_def is_alpha_def)

subsection \<open>Default page size of the list operations\<close>

lemma twenty: "number_to_string 20 = ''20''"
  by (simp add: number_to_string_def string_of_nat.simps)

lemma hundred: "number_to_string 100 = ''100''"
  by (simp add: number_to_string_def string_of_nat.simps)

lemma encode_entry_same:
  "filter (\<lambda>q. fst q = k) sp = [] \<Longrightarrow>
   filter (\<lambda>q. fst q = k) (encode_entry sp (k, x)) = encode_entry [] (k, x)"
  by (cases "(sp, (k, x))" rule: encode_entry.cases) (auto simp: sp_set_same)

lemma entry_pairs:
  assumes "distinct (map fst obj)"
  shows "filter (\<lambda>q. fst q = k) (searchParams obj) =
           (case map_of obj k of None \<Rightarrow> [] | Some x \<Rightarrow> searchParams [(k, x)])"
proof (cases "map_of obj k")
  case None
  then have "k \<notin> fst ` set obj" by (simp add: map_of_eq_None_iff)
  then show ?thesis using None by (simp add: searchParams_def entries_keep)
next
  case (Some x)
  then have "(k, x) \<in> set obj" by (rule map_of_SomeD)
  then obtain before after where split: "obj = before @ (k, x) # after"
    by (auto simp: in_set_conv_decomp)
  with assms have fresh: "k \<notin> fst ` set before" "k \<notin> fst ` set after" by auto
  have "filter (\<lambda>q. fst q = k) (foldl encode_entry [] before) = []"
    using fresh(1) by (simp add: entries_keep)
  then show ?thesis
    using fresh(2) Some by (simp add: split searchParams_def entries_keep encode_entry_same)
qed

lemma searchParams_Cons_absent:
  "x = None \<or> x = Some JNull \<Longrightarrow> searchParams ((k, x) # rest) = searchParams rest"
  by (auto simp: searchParams_def)

lemma searchParams_number: "searchParams [(k, Some (JNum m))] = [(k, number_to_string m)]"
  by (simp add: searchParams_def)

lemma buildQueryString_pairs:
  "buildQueryString obj =
     (if searchParams obj = [] then [] else ''?'' @ sp_toString (searchParams obj))"
  using sp_toString_nonempty[of "searchParams obj"]
  by (auto simp: buildQueryString_def Let_def sp_toString_def)

lemma get_request_relative:
  "json_request e c (CHR ''/'' # rest) GET = get_request e c (CHR ''/'' # rest)"
  by (simp add: json_request_def GET_def no_options_def spread_def resolve_relative
      get_request_def)

lemma list_endpoint_default:
  assumes "distinct (map fst params)" and "\<forall>k \<in> fst ` set params. \<not> is_index k"
    and "map_of params ''per_page'' = None"
  shows "list_endpoint path n params =
           path @ ''?per_page='' @ number_to_string n @ more_pairs (searchParams params)"
proof -
  from assms(3) have nk: "''per_page'' \<notin> fst ` set params"
    by (simp add: map_of_eq_None_iff)
  then have f: "filter (\<lambda>p. fst p \<noteq> ''per_page'') params = params"
    by (force simp: filter_id_conv)
  have "spread [(''per_page'', Some (JNum n))] params = (''per_page'', Some (JNum n)) # params"
    using spread_over_default[OF assms(1) assms(2), of "''per_page''" "[]" "Some (JNum n)"]
      assms(3) f
    by simp
  moreover have "searchParams ((''per_page'', Some (JNum n)) # params) =
      (''per_page'', number_to_string n) # searchParams params"
    using searchParams_first[OF nk, of "number_to_string n" "[]"] by (simp add: searchParams_def)
  ultimately show ?thesis
    by (simp add: list_endpoint_def buildQueryString_def sp_toString_Cons urlencode_number
        urlencode_per_page Let_def)
qed

lemma list_endpoint_supplied:
  assumes "distinct (map fst params)" and "\<forall>k \<in> fst ` set params. \<not> is_index k"
    and "map_of params ''per_page'' = Some x"
  shows "list_endpoint path n params =
           path @ buildQueryString ((''per_page'', x) # filter (\<lambda>p. fst p \<noteq> ''per_page'') params)"
  using spread_over_default[OF assms(1) assms(2), of "''per_page''" "[]" "Some (JNum n)"] assms(3)
  by (simp add: list_endpoint_def)

lemma list_endpoint_number:
  assumes "distinct (map fst params)" and "\<forall>k \<in> fst ` set params. \<not> is_index k"
    and "map_of params ''per_page'' = Some (Some (JNum m))"
  shows "list_endpoint path n params =
           path @ ''?per_page='' @ number_to_string m
             @ more_pairs (searchParams (filter (\<lambda>p. fst p \<noteq> ''per_page'') params))"
proof -
  have nk: "''per_page'' \<notin> fst ` set (filter (\<lambda>p. fst p \<noteq> ''per_page'') params)"
    by auto
  have "searchParams ((''per_page'', Some (JNum m)) # filter (\<lambda>p. fst p \<noteq> ''per_page'') params) =
      (''per_page'', number_to_string m)
        # searchParams (filter (\<lambda>p. fst p \<noteq> ''per_page'') params)"
    using searchParams_first[OF nk, of "number_to_string m" "[]"] by (simp add: searchParams_def)
  then show ?thesis
    by (simp add: list_endpoint_supplied[OF assms] buildQueryString_def sp_toString_Cons
        urlencode_number urlencode_per_page Let_def)
qed

lemma list_endpoint_undefined:
  assumes "distinct (map fst params)" and "\<forall>k \<in> fst ` set params. \<not> is_index k"
    and "map_of params ''per_page'' = Some x" and "x = None \<or> x = Some JNull"
  shows "list_endpoint path n params =
           path @ buildQueryString (filter (\<lambda>p. fst p \<noteq> ''per_page'') params)"
  using searchParams_Cons_absent[OF assms(4)]
  by (simp add: list_endpoint_supplied[OF assms(1,2,3)] buildQueryString_def)

lemma list_pairs:
  assumes "distinct (map fst params)"
  shows "filter (\<lambda>q. fst q = k) (searchParams (spread [(''per_page'', Some (JNum n))] params)) =
           (if k = ''per_page''
            then (case map_of params ''per_page'' of
                    None \<Rightarrow> [(''per_page'', number_to_string n)]
                  | Some x \<Rightarrow> searchParams [(''per_page'', x)])
            else filter (\<lambda>q. fst q = k) (searchParams params))"
proof -
  have d: "distinct (map fst (spread [(''per_page'', Some (JNum n))] params))"
    by (rule spread_distinct) simp
  show ?thesis
    by (simp add: entry_pairs[OF d] entry_pairs[OF assms] spread_lookup[OF assms]
        searchParams_number split: option.splits)
qed

lemma list_requests:
  "snd (listPosts e c params tr) = tr @ [get_request e c (list_endpoint ''/posts'' 20 params)]"
  "snd (listPages e c params tr) = tr @ [get_request e c (list_endpoint ''/pages'' 20 params)]"
  "snd (listComments e c params tr) =
     tr @ [get_request e c (list_endpoint ''/comments'' 20 params)]"
  "snd (listMedia e c params tr) = tr @ [get_request e c (list_endpoint ''/media'' 20 params)]"
  "snd (listCategories e c params tr) =
     tr @ [get_request e c (list_endpoint ''/categories'' 100 params)]"
  "snd (listTags e c params tr) = tr @ [get_request e c (list_endpoint ''/tags'' 100 params)]"
  "snd (listUsers e c tr) = tr @ [get_request e c ''/users'']"
  using get_request_relative
  by (simp_all add: listPosts_def listPages_def listComments_def listMedia_def
      listCategories_def listTags_def listUsers_def requestWithHeaders_trace
      listPosts_endpoint_def listPages_endpoint_def listComments_endpoint_def
      listMedia_endpoint_def listCategories_endpoint_def listTags_endpoint_def
      listUsers_endpoint_def list_endpoint_def)

text \<open>
  Claim C10. A parameter object holds each key once. \<open>listPosts\<close>, \<open>listPages\<close>,
  \<open>listComments\<close> and \<open>listMedia\<close> issue one \<open>GET\<close> request whose target is their
  path followed by the query built from \<open>{ per_page: 20, ...params }\<close>;
  \<open>listCategories\<close> and \<open>listTags\<close> do so with \<open>per_page: 100\<close>; \<open>listUsers\<close>
  requests \<open>/users\<close> with no query at all.

  In that query, for every parameter object: when the caller gives no \<open>per_page\<close>,
  the only pair named \<open>per_page\<close> carries the default; when the caller gives one,
  the pairs named \<open>per_page\<close> are those its own entry is encoded to and the default is
  gone: one pair for a number, none for \<open>undefined\<close> or \<open>null\<close>; the pairs of every
  other name are those of the caller's parameters.

  When no key of the caller is an array index, the query is moreover known to the
  letter: \<open>per_page\<close> comes first (\<open>?per_page=20\<close>, \<open>?per_page=100\<close>, or the
  caller's number, printed in decimal), followed by the caller's other parameters; with
  \<open>per_page\<close> given as \<open>undefined\<close> or \<open>null\<close> the query is that of the other
  parameters alone.
\<close>

theorem list_per_page_default:
  assumes "distinct (map fst params)"
  shows
    "snd (listPosts e c params tr) = tr @ [get_request e c (list_endpoint ''/posts'' 20 params)] \<and>
     snd (listPages e c params tr) = tr @ [get_request e c (list_endpoint ''/pages'' 20 params)] \<and>
     snd (listComments e c params tr) =
       tr @ [get_request e c (list_endpoint ''/comments'' 20 params)] \<and>
     snd (listMedia e c params tr) = tr @ [get_request e c (list_endpoint ''/media'' 20 params)] \<and>
     snd (listCategories e c params tr) =
       tr @ [get_request e c (list_endpoint ''/categories'' 100 params)] \<and>
     snd (listTags e c params tr) = tr @ [get_request e c (list_endpoint ''/tags'' 100 params)] \<and>
     snd (listUsers e c tr) = tr @ [get_request e c ''/users''] \<and>
     number_to_string 20 = ''20'' \<and> number_to_string 100 = ''100'' \<and>
     (\<forall>path n.
        (let sp = searchParams (spread [(''per_page'', Some (JNum n))] params)
         in list_endpoint path n params = path @ (if sp = [] then [] else ''?'' @ sp_toString sp) \<and>
            (map_of params ''per_page'' = None \<longrightarrow>
               filter (\<lambda>q. fst q = ''per_page'') sp = [(''per_page'', number_to_string n)]) \<and>
            (\<forall>x. map_of params ''per_page'' = Some x \<longrightarrow>
               filter (\<lambda>q. fst q = ''per_page'') sp = searchParams [(''per_page'', x)]) \<and>
            (\<forall>k. k \<noteq> ''per_page'' \<longrightarrow>
               filter (\<lambda>q. fst q = k) sp = filter (\<lambda>q. fst q = k) (searchParams params)))) \<and>
     searchParams [(''per_page'', None)] = [] \<and>
     searchParams [(''per_page'', Some JNull)] = [] \<and>
     (\<forall>m. \<bar>m\<bar> < 1000000000000000000000 \<longrightarrow>
        searchParams [(''per_page'', Some (JNum m))] = [(''per_page'', number_to_string m)]) \<and>
     ((\<forall>k \<in> fst ` set params. \<not> is_index k) \<longrightarrow>
        (\<forall>path n.
           (map_of params ''per_page'' = None \<longrightarrow>
              list_endpoint path n params =
                path @ ''?per_page='' @ number_to_string n @ more_pairs (searchParams params)) \<and>
           (\<forall>m. map_of params ''per_page'' = Some (Some (JNum m)) \<and>
                \<bar>m\<bar> < 1000000000000000000000 \<longrightarrow>
              list_endpoint path n params =
                path @ ''?per_page='' @ number_to_string m
                  @ more_pairs (searchParams (filter (\<lambda>p. fst p \<noteq> ''per_page'') params))) \<and>
           (map_of params ''per_page'' = Some None \<or>
            map_of params ''per_page'' = Some (Some JNull) \<longrightarrow>
              list_endpoint path n params =
                path @ buildQueryString (filter (\<lambda>p. fst p \<noteq> ''per_page'') params))))"
proof -
  have query: "list_endpoint path n params =
      path @ (if searchParams (spread [(''per_page'', Some (JNum n))] params) = [] then []
              else ''?'' @ sp_toString (searchParams (spread [(''per_page'', Some (JNum n))] params)))"
    for path n
    by (simp add: list_endpoint_def buildQueryString_pairs)
  have default: "map_of params ''per_page'' = None \<longrightarrow>
      filter (\<lambda>q. fst q = ''per_page'')
        (searchParams (spread [(''per_page'', Some (JNum n))] params)) =
      [(''per_page'', number_to_string n)]" for n
    by (simp add: list_pairs[OF assms])
  have supplied: "\<forall>x. map_of params ''per_page'' = Some x \<longrightarrow>
      filter (\<lambda>q. fst q = ''per_page'')
        (searchParams (spread [(''per_page'', Some (JNum n))] params)) =
      searchParams [(''per_page'', x)]" for n
    by (simp add: list_pairs[OF assms])
  have others: "\<forall>k. k \<noteq> ''per_page'' \<longrightarrow>
      filter (\<lambda>q. fst q = k) (searchParams (spread [(''per_page'', Some (JNum n))] params)) =
      filter (\<lambda>q. fst q = k) (searchParams params)" for n
    by (simp add: list_pairs[OF assms])
  have single: "searchParams [(''per_page'', None)] = []"
    "searchParams [(''per_page'', Some JNull)] = []"
    by (simp_all add: searchParams_def)
  have exact: "(map_of params ''per_page'' = None \<longrightarrow>
              list_endpoint path n params =
                path @ ''?per_page='' @ number_to_string n @ more_pairs (searchParams params)) \<and>
           (\<forall>m. map_of params ''per_page'' = Some (Some (JNum m)) \<and>
                \<bar>m\<bar> < 1000000000000000000000 \<longrightarrow>
              list_endpoint path n params =
                path @ ''?per_page='' @ number_to_string m
                  @ more_pairs (searchParams (filter (\<lambda>p. fst p \<noteq> ''per_page'') params))) \<and>
           (map_of params ''per_page'' = Some None \<or>
            map_of params ''per_page'' = Some (Some JNull) \<longrightarrow>
              list_endpoint path n params =
                path @ buildQueryString (filter (\<lambda>p. fst p \<noteq> ''per_page'') params))"
    if plain: "\<forall>k \<in> fst ` set params. \<not> is_index k" for path n
    using list_endpoint_default[OF assms plain] list_endpoint_number[OF assms plain]
      list_endpoint_undefined[OF assms plain]
    by blast
  have pairs: "\<forall>path n.
        (let sp = searchParams (spread [(''per_page'', Some (JNum n))] params)
         in list_endpoint path n params = path @ (if sp = [] then [] else ''?'' @ sp_toString sp) \<and>
            (map_of params ''per_page'' = None \<longrightarrow>
               filter (\<lambda>q. fst q = ''per_page'') sp = [(''per_page'', number_to_string n)]) \<and>
            (\<forall>x. map_of params ''per_page'' = Some x \<longrightarrow>
               filter (\<lambda>q. fst q = ''per_page'') sp = searchParams [(''per_page'', x)]) \<and>
            (\<forall>k. k \<noteq> ''per_page'' \<longrightarrow>
               filter (\<lambda>q. fst q = k) sp = filter (\<lambda>q. fst q = k) (searchParams params)))"
    unfolding Let_def using query default supplied others by blast
  have numbers: "\<forall>m. \<bar>m\<bar> < 1000000000000000000000 \<longrightarrow>
        searchParams [(''per_page'', Some (JNum m))] = [(''per_page'', number_to_string m)]"
    by (simp add: searchParams_number)
  note requests = list_requests[where e = e and c = c and tr = tr]
  show ?thesis
    by (intro conjI impI)
       (rule requests(1)[of params] requests(2)[of params] requests(3)[of params]
          requests(4)[of params] requests(5)[of params] requests(6)[of params] requests(7)
          twenty hundred pairs single numbers
        | (intro allI, rule exact, assumption))+
qed

theorem list_per_page_default_witness:
  "distinct (map fst [(''order'', Some (JStr ''desc'')), (''page'', None)]) \<and>
   snd (listPosts (answering (plain_response 200 ''[]'')) sample_client
          [(''order'', Some (JStr ''desc'')), (''page'', None)] []) =
     [get_request (answering (plain_response 200 ''[]'')) sample_client ''/posts?per_page=20&order=desc''] \<and>
   snd (listTags (answering (plain_response 200 ''[]'')) sample_client
          [(''order'', Some (JStr ''desc'')), (''page'', None)] []) =
     [get_request (answering (plain_response 200 ''[]'')) sample_client ''/tags?per_page=100&order=desc''] \<and>
   snd (listPosts (answering (plain_response 200 ''[]'')) sample_client
          [(''order'', Some (JStr ''desc'')), (''per_page'', Some (JNum 5))] []) =
     [get_request (answering (plain_response 200 ''[]'')) sample_client ''/posts?per_page=5&order=desc''] \<and>
   snd (listPages (answering (plain_response 200 ''[]'')) sample_client
          [(''per_page'', None), (''order'', Some (JStr ''desc''))] []) =
     [get_request (answering (plain_response 200 ''[]'')) sample_client ''/pages?order=desc''] \<and>
   filter (\<lambda>q. fst q = ''per_page'')
     (searchParams (spread [(''per_page'', Some (JNum 100))] [(''7'', Some (JStr ''x''))])) =
     [(''per_page'', ''100'')] \<and>
   snd (listUsers (answering (plain_response 200 ''[]'')) sample_client []) =
     [get_request (answering (plain_response 200 ''[]'')) sample_client ''/users'']"
proof -
  let ?E = "answering (plain_response 200 ''[]'')"
  let ?P1 = "[(''order'', Some (JStr ''desc'')), (''page'', None)]"
  let ?P2 = "[(''order'', Some (JStr ''desc'')), (''per_page'', Some (JNum 5))]"
  let ?P3 = "[(''per_page'', None), (''order'', Some (JStr ''desc''))]"
  let ?P4 = "[(''7'', Some (JStr ''x''))] :: (string \<times> jsval) list"
  have d: "distinct (map fst ?P1)" "distinct (map fst ?P2)" "distinct (map fst ?P3)"
    "distinct (map fst ?P4)"
    by simp_all
  have plain: "\<forall>k \<in> fst ` set ?P1. \<not> is_index k" "\<forall>k \<in> fst ` set ?P2. \<not> is_index k"
    "\<forall>k \<in> fst ` set ?P3. \<not> is_index k"
    by (simp_all add: is_index_def is_digit_def)
  have given: "map_of ?P1 ''per_page'' = None"
    "map_of ?P2 ''per_page'' = Some (Some (JNum 5)) \<and> \<bar>5 :: int\<bar> < 1000000000000000000000"
    "map_of ?P3 ''per_page'' = Some None \<or> map_of ?P3 ''per_page'' = Some (Some JNull)"
    "map_of ?P4 ''per_page'' = None"
    by simp_all
  have rest: "more_pairs (searchParams ?P1) = ''&order=desc''"
    "more_pairs (searchParams (filter (\<lambda>p. fst p \<noteq> ''per_page'') ?P2)) = ''&order=desc''"
    "buildQueryString (filter (\<lambda>p. fst p \<noteq> ''per_page'') ?P3) = ''?order=desc''"
    "number_to_string 5 = ''5''"
    "more_pairs (searchParams [(''order'', Some (JStr ''desc''))]) = ''&order=desc''"
    "buildQueryString [(''order'', Some (JStr ''desc''))] = ''?order=desc''"
    by (simp_all add: more_pairs_def buildQueryString_def searchParams_def sp_toString_def
        urlencode_def urlencode_byte_def is_digit_def is_alpha_def number_to_string_def
        string_of_nat.simps)
  note one = list_per_page_default[OF d(1), where e = ?E and c = sample_client and tr = "[]"]
  note two = list_per_page_default[OF d(2), where e = ?E and c = sample_client and tr = "[]"]
  note three = list_per_page_default[OF d(3), where e = ?E and c = sample_client and tr = "[]"]
  note four = list_per_page_default[OF d(4), where e = ?E and c = sample_client and tr = "[]"]
  note exact1 = one[THEN conjunct2, THEN conjunct2, THEN conjunct2, THEN conjunct2, THEN conjunct2, THEN conjunct2, THEN conjunct2, THEN conjunct2, THEN conjunct2, THEN conjunct2, THEN conjunct2, THEN conjunct2, THEN conjunct2, THEN mp, OF plain(1), THEN spec, THEN spec]
  note exact2 = two[THEN conjunct2, THEN conjunct2, THEN conjunct2, THEN conjunct2, THEN conjunct2, THEN conjunct2, THEN conjunct2, THEN conjunct2, THEN conjunct2, THEN conjunct2, THEN conjunct2, THEN conjunct2, THEN conjunct2, THEN mp, OF plain(2), THEN spec, THEN spec]
  note exact3 = three[THEN conjunct2, THEN conjunct2, THEN conjunct2, THEN conjunct2, THEN conjunct2, THEN conjunct2, THEN conjunct2, THEN conjunct2, THEN conjunct2, THEN conjunct2, THEN conjunct2, THEN conjunct2, THEN conjunct2, THEN mp, OF plain(3), THEN spec, THEN spec]
  have posts1: "list_endpoint ''/posts'' 20 ?P1 = ''/posts?per_page=20&order=desc''"
    using exact1[of "''/posts''" 20, THEN conjunct1, THEN mp, OF given(1)]
    by (simp add: twenty rest)
  have tags1: "list_endpoint ''/tags'' 100 ?P1 = ''/tags?per_page=100&order=desc''"
    using exact1[of "''/tags''" 100, THEN conjunct1, THEN mp, OF given(1)]
    by (simp add: hundred rest)
  have posts2: "list_endpoint ''/posts'' 20 ?P2 = ''/posts?per_page=5&order=desc''"
    using exact2[of "''/posts''" 20, THEN conjunct2, THEN conjunct1, THEN spec, THEN mp,
        OF given(2)]
    by (simp add: rest)
  have pages3: "list_endpoint ''/pages'' 20 ?P3 = ''/pages?order=desc''"
    using exact3[of "''/pages''" 20, THEN conjunct2, THEN conjunct2, THEN mp, OF given(3)]
    by (simp add: rest)
  have index4: "filter (\<lambda>q. fst q = ''per_page'')
     (searchParams (spread [(''per_page'', Some (JNum 100))] ?P4)) = [(''per_page'', ''100'')]"
    using four[THEN conjunct2, THEN conjunct2, THEN conjunct2, THEN conjunct2, THEN conjunct2, THEN conjunct2, THEN conjunct2, THEN conjunct2, THEN conjunct2, THEN conjunct1, THEN spec, THEN spec, of 100]
    by (simp add: Let_def hundred)
  from one[THEN conjunct1] one[THEN conjunct2, THEN conjunct2, THEN conjunct2, THEN conjunct2, THEN conjunct2, THEN conjunct1]
    two[THEN conjunct1] three[THEN conjunct2, THEN conjunct1]
    one[THEN conjunct2, THEN conjunct2, THEN conjunct2, THEN conjunct2, THEN conjunct2, THEN conjunct2, THEN conjunct1] index4 d(1)
  show ?thesis
    by (simp add: posts1 tags1 posts2 pages3)
qed

subsection \<open>Array parameters\<close>

text \<open>
  Claim C3, as stated, fails: the separator does not stay a literal comma in the output.
  \<open>URLSearchParams.toString()\<close> percent-encodes the comma of the joined value like
  any other reserved byte, so the array \<open>[a, b, c]\<close> under \<open>k\<close> is sent as
  \<open>k=a%2Cb%2Cc\<close>, and the query string holds no comma.
\<close>

theorem array_comma_counterexample:
  "buildQueryString [(''k'', Some (JArr [JStr ''a'', JStr ''b'', JStr ''c'']))] = ''?k=a%2Cb%2Cc'' \<and>
   buildQueryString [(''k'', Some (JArr [JStr ''a'', JStr ''b'', JStr ''c'']))] \<noteq> ''?k=a,b,c'' \<and>
   CHR '','' \<notin> set (buildQueryString [(''k'', Some (JArr [JStr ''a'', JStr ''b'', JStr ''c'']))])"
proof -
  have "buildQueryString [(''k'', Some (JArr [JStr ''a'', JStr ''b'', JStr ''c'']))] =
      ''?k=a%2Cb%2Cc''"
    by (simp add: buildQueryString_def searchParams_def sp_toString_def array_join_def
        urlencode_def urlencode_byte_def is_digit_def is_alpha_def percent_byte_def
        hex_digit_def)
  then show ?thesis by simp
qed

text \<open>
  Claim C3, amended. For a parameter object (each key once) that holds the array
  \<open>xs\<close> under \<open>k\<close>, the encoder yields exactly one pair of name \<open>k\<close>; its value is
  the elements joined by a comma in their order, none removed; the query string is
  \<open>?\<close> followed by the pairs \<open>name=value\<close>, names and values percent-encoded and
  joined by \<open>&\<close>; and in the encoded value the elements are percent-encoded one by one
  and separated by \<open>%2C\<close>, the percent-encoded comma.
\<close>

theorem array_entry_encoding:
  assumes "distinct (map fst params)" and "(k, Some (JArr xs)) \<in> set params"
  shows
    "filter (\<lambda>q. fst q = k) (searchParams params) = [(k, array_join '','' xs)] \<and>
     buildQueryString params =
       ''?'' @ join ''&'' (map (\<lambda>(n, v). urlencode n @ ''='' @ urlencode v) (searchParams params)) \<and>
     urlencode (array_join '','' xs) =
       join ''%2C'' (map (\<lambda>x. urlencode (if x = JNull then [] else js_String x)) xs)"
proof -
  have once: "filter (\<lambda>q. fst q = k) (searchParams params) = [(k, array_join '','' xs)]"
    using assms by (rule array_entry_once)
  then have "searchParams params \<noteq> []" by auto
  then have "sp_toString (searchParams params) \<noteq> []" by (rule sp_toString_nonempty)
  then have query: "buildQueryString params =
       ''?'' @ join ''&'' (map (\<lambda>(n, v). urlencode n @ ''='' @ urlencode v) (searchParams params))"
    by (simp add: buildQueryString_def Let_def) (simp add: sp_toString_def)
  have "urlencode (array_join '','' xs) =
       join ''%2C'' (map (\<lambda>x. urlencode (if x = JNull then [] else js_String x)) xs)"
    by (simp add: array_join_def urlencode_join comp_def)
  with once query show ?thesis by simp
qed

theorem array_entry_encoding_witness:
  "distinct (map fst [(''per_page'', Some (JNum 20)), (''tags'', Some (JArr [JNum 7, JNum 3, JNum 7]))]) \<and>
   (''tags'', Some (JArr [JNum 7, JNum 3, JNum 7]))
     \<in> set [(''per_page'', Some (JNum 20)), (''tags'', Some (JArr [JNum 7, JNum 3, JNum 7]))] \<and>
   filter (\<lambda>q. fst q = ''tags'')
     (searchParams [(''per_page'', Some (JNum 20)), (''tags'', Some (JArr [JNum 7, JNum 3, JNum 7]))])
     = [(''tags'', ''7,3,7'')] \<and>
   buildQueryString [(''per_page'', Some (JNum 20)), (''tags'', Some (JArr [JNum 7, JNum 3, JNum 7]))]
     = ''?per_page=20&tags=7%2C3%2C7''"
proof -
  have d: "distinct (map fst [(''per_page'', Some (JNum 20)),
      (''tags'', Some (JArr [JNum 7, JNum 3, JNum 7]))])"
    by simp
  have m: "(''tags'', Some (JArr [JNum 7, JNum 3, JNum 7]))
     \<in> set [(''per_page'', Some (JNum 20)), (''tags'', Some (JArr [JNum 7, JNum 3, JNum 7]))]"
    by simp
  have v: "array_join '','' [JNum 7, JNum 3, JNum 7] = ''7,3,7''"
    by (simp add: array_join_def number_to_string_def string_of_nat.simps)
  have sp: "searchParams [(''per_page'', Some (JNum 20)),
      (''tags'', Some (JArr [JNum 7, JNum 3, JNum 7]))] =
      [(''per_page'', ''20''), (''tags'', ''7,3,7'')]"
    by (simp add: searchParams_def v twenty)
  have enc: "urlencode ''per_page'' = ''per_page''" "urlencode ''20'' = ''20''"
    "urlencode ''tags'' = ''tags''" "urlencode ''7,3,7'' = ''7%2C3%2C7''"
    by (simp_all add: urlencode_def urlencode_byte_def is_digit_def is_alpha_def
        percent_byte_def hex_digit_def)
  from array_entry_encoding[OF d m] d m show ?thesis
    by (simp add: v sp enc)
qed

section \<open>Properties of the tool handlers\<close>

subsection \<open>Bulk comment moderation\<close>

lemma updateComment_trace:
  "snd (updateComment e c i (JObj [(''status'', JStr st)]) tr) =
     tr @ [moderation_request e c st i]"
  by (simp add: updateComment_def request_trace moderation_request_def)

lemma upt_from_zero: "map f [0..<Suc n] = f 0 # map (\<lambda>k. f (Suc k)) [0..<n]"
  by (simp add: map_upt_Suc del: upt_Suc)

lemma moderate_each_run:
  "moderate_each e c st ids results tr =
     (results @
        map (\<lambda>k. expected_entry (ids ! k)
                   (fst (updateComment e c (ids ! k) (JObj [(''status'', JStr st)])
                           (tr @ map (moderation_request e c st) (take k ids)))))
          [0..<length ids],
      tr @ map (moderation_request e c st) ids)"
proof (induction ids arbitrary: results tr)
  case Nil
  then show ?case by simp
next
  case (Cons i ids)
  obtain outcome tr' where
    run: "updateComment e c i (JObj [(''status'', JStr st)]) tr = (outcome, tr')"
    by (cases "updateComment e c i (JObj [(''status'', JStr st)]) tr")
  with updateComment_trace[of e c i st tr] have tr': "tr' = tr @ [moderation_request e c st i]"
    by simp
  have entry: "results @ [expected_entry i outcome] =
      (case outcome of
         Inr comment \<Rightarrow> results @ [\<lparr>item_id = i, success = True, error = None\<rparr>]
       | Inl err \<Rightarrow> results @ [\<lparr>item_id = i, success = False, error = Some (error_text err)\<rparr>])"
    by (simp add: expected_entry_def error_text_def split: sum.splits thrown.splits)
  have "moderate_each e c st (i # ids) results tr =
      moderate_each e c st ids (results @ [expected_entry i outcome]) tr'"
    by (simp add: run entry split: sum.splits)
  also have "\<dots> =
      ((results @ [expected_entry i outcome]) @
        map (\<lambda>k. expected_entry (ids ! k)
                   (fst (updateComment e c (ids ! k) (JObj [(''status'', JStr st)])
                           (tr' @ map (moderation_request e c st) (take k ids)))))
          [0..<length ids],
       tr' @ map (moderation_request e c st) ids)"
    by (rule Cons.IH)
  finally show ?case
    by (simp add: tr' run upt_from_zero del: upt_Suc)
qed

text \<open>
  Claim C7. Whatever the network answers, the bulk handler issues one update request per
  comment id, in the order of the ids, none skipped after a failure; its report has one
  entry per id, in that order; the entry at position \<open>k\<close> carries the id at position
  \<open>k\<close>, and its success flag and error message are those of that item's own update, run
  after the requests of the items before it; the two counts add up to the number of ids.
\<close>

theorem bulk_moderation_per_item:
  "(case bulk_moderate_comments e c ids st tr of
      (report, tr') \<Rightarrow>
        tr' = tr @ map (moderation_request e c st) ids \<and>
        length (details report) = length ids \<and>
        map item_id (details report) = ids \<and>
        (\<forall>k < length ids.
           details report ! k =
             expected_entry (ids ! k)
               (fst (updateComment e c (ids ! k) (JObj [(''status'', JStr st)])
                       (tr @ map (moderation_request e c st) (take k ids))))) \<and>
        successful report + failed report = length ids)"
proof -
  let ?entry = "\<lambda>k. expected_entry (ids ! k)
                   (fst (updateComment e c (ids ! k) (JObj [(''status'', JStr st)])
                           (tr @ map (moderation_request e c st) (take k ids))))"
  have run: "moderate_each e c st ids [] tr =
      (map ?entry [0..<length ids], tr @ map (moderation_request e c st) ids)"
    using moderate_each_run[of e c st ids "[]" tr] by simp
  have id_of: "item_id (expected_entry i outcome) = i" for i outcome
    by (simp add: expected_entry_def split: sum.splits thrown.splits)
  have ids: "map item_id (map ?entry [0..<length ids]) = ids"
    by (simp add: id_of comp_def map_nth)
  have counts: "length (filter P xs) + length (filter (\<lambda>x. \<not> P x) xs) = length xs"
    for P :: "moderation_result \<Rightarrow> bool" and xs
    by (rule sum_length_filter_compl)
  show ?thesis
    using ids counts[of success "map ?entry [0..<length ids]"]
    by (simp add: bulk_moderate_comments_def run)
qed

lemma sample_api: "apiBase sample_client = ''https://example.com/wp-json/wp/v2''"
  by (simp add: sample_client_def new_WordPressClient_def strip_trailing_slashes_def)

lemma sample_numbers:
  "number_to_string 11 = ''11''" "number_to_string 12 = ''12''" "number_to_string 13 = ''13''"
  by (simp_all add: number_to_string_def string_of_nat.simps)

lemma sample_parse_gone: "sample_parse ''gone'' = Inl ''Unexpected token''"
  by (simp add: sample_parse_def bad_request_body_def empty_message_body_def quoted_def)

lemma sample_parse_empty_object: "sample_parse ''{}'' = Inr (JObj [])"
  by (simp add: sample_parse_def bad_request_body_def empty_message_body_def quoted_def)

lemma sample_update:
  "i \<in> {11, 12, 13} \<Longrightarrow>
   fst (updateComment
         (answering_but ''https://example.com/wp-json/wp/v2/comments/12''
            (plain_response 404 ''gone'') (plain_response 200 ''{}''))
         sample_client i input tr) =
     (if i = 12 then Inl (Error ''WordPress API error (404): gone'') else Inr (JObj []))"
  by (auto simp: updateComment_def request_def do_fetch_def answering_but_def json_request_def
      resolve_def startsWith_def sample_api sample_numbers POST_def ok_def plain_response_def
      errorMessage_def api_error_def sample_parse_gone sample_parse_empty_object
      string_of_nat.simps)

theorem bulk_moderation_per_item_witness:
  "(0::nat) < length [11, 12, 13 :: int] \<and> 1 < length [11, 12, 13 :: int] \<and>
   2 < length [11, 12, 13 :: int] \<and>
   (case bulk_moderate_comments
           (answering_but ''https://example.com/wp-json/wp/v2/comments/12''
              (plain_response 404 ''gone'') (plain_response 200 ''{}''))
           sample_client [11, 12, 13] ''spam'' [] of
      (report, tr') \<Rightarrow>
        length tr' = 3 \<and>
        length (details report) = 3 \<and>
        details report ! 0 = \<lparr>item_id = 11, success = True, error = None\<rparr> \<and>
        details report ! 1 =
          \<lparr>item_id = 12, success = False, error = Some ''WordPress API error (404): gone''\<rparr> \<and>
        details report ! 2 = \<lparr>item_id = 13, success = True, error = None\<rparr> \<and>
        successful report + failed report = 3)"
  using bulk_moderation_per_item
          [where e = "answering_but ''https://example.com/wp-json/wp/v2/comments/12''
                        (plain_response 404 ''gone'') (plain_response 200 ''{}'')"
             and c = sample_client and ids = "[11, 12, 13]" and st = "''spam''" and tr = "[]"]
  by (auto simp: sample_update expected_entry_def split: prod.splits)

subsection \<open>Updates with no field to update\<close>

lemma cleanData_undefined:
  "(\<forall>(k, v) \<in> set updateData. v = None) \<Longrightarrow> cleanData updateData = []"
  by (induction updateData) (auto simp: cleanData_def map_filter_simps)

lemma cleanData_defined:
  "(k, Some x) \<in> set updateData \<Longrightarrow> cleanData updateData \<noteq> []"
  by (induction updateData) (auto simp: cleanData_def map_filter_simps split: option.splits)

lemma update_post_with_fields:
  "(k, Some x) \<in> set updateData \<Longrightarrow>
   snd (update_post e c i updateData tr) =
     tr @ [json_request e c (''/posts/'' @ number_to_string i) (POST (JObj (cleanData updateData)))]"
  using cleanData_defined[of k x updateData] request_trace
  by (simp add: update_post_def finish_def updatePost_def split: prod.splits sum.splits)
     (metis snd_conv)

text \<open>
  Claim C8. When every field the caller passed is undefined, \<open>update_post\<close>,
  \<open>update_page\<close> and \<open>update_media\<close> return the text
  "Error: No fields to update were provided." and \<open>update_site_settings\<close> returns
  "Error: No settings to update were provided."; in each case the list of issued
  requests is returned as it was: no request reaches the remote API.
\<close>

theorem update_without_fields:
  assumes "\<forall>(k, v) \<in> set updateData. v = None"
  shows
    "update_post e c i updateData tr = (Text ''Error: No fields to update were provided.'', tr) \<and>
     update_page e c i updateData tr = (Text ''Error: No fields to update were provided.'', tr) \<and>
     update_media e c i updateData tr = (Text ''Error: No fields to update were provided.'', tr) \<and>
     update_site_settings e c updateData tr =
       (Text ''Error: No settings to update were provided.'', tr)"
  using cleanData_undefined[OF assms]
  by (simp add: update_post_def update_page_def update_media_def update_site_settings_def)

theorem update_without_fields_witness:
  "map snd [(''title'', None :: jsval), (''caption'', None)] = [None, None] \<and>
   update_post (answering (plain_response 200 ''{}'')) sample_client 7
     [(''title'', None), (''caption'', None)] [] =
       (Text ''Error: No fields to update were provided.'', []) \<and>
   update_page (answering (plain_response 200 ''{}'')) sample_client 7
     [(''title'', None), (''caption'', None)] [] =
       (Text ''Error: No fields to update were provided.'', []) \<and>
   update_media (answering (plain_response 200 ''{}'')) sample_client 7
     [(''title'', None), (''caption'', None)] [] =
       (Text ''Error: No fields to update were provided.'', []) \<and>
   update_site_settings (answering (plain_response 200 ''{}'')) sample_client
     [(''title'', None), (''caption'', None)] [] =
       (Text ''Error: No settings to update were provided.'', [])"
proof -
  have undefined_only: "\<forall>(k, v) \<in> set [(''title'', None :: jsval), (''caption'', None)]. v = None"
    by simp
  from update_without_fields[OF undefined_only] show ?thesis
    by simp
qed

section \<open>Properties of error normalization and pagination\<close>

subsection \<open>The message of a failed call\<close>

lemma request_error:
  assumes "fetch e tr (json_request e c endpoint options) = Inr r" and "\<not> ok r"
  shows "fst (request e c endpoint options tr) =
           Inl (api_error (status r) (errorMessage e (body_text r)))"
  using assms by (simp add: request_def do_fetch_def)

lemma requestWithHeaders_error:
  assumes "fetch e tr (json_request e c endpoint options) = Inr r" and "\<not> ok r"
  shows "fst (requestWithHeaders e c endpoint options tr) =
           Inl (api_error (status r) (errorMessage e (body_text r)))"
  using assms by (simp add: requestWithHeaders_def do_fetch_def)

lemma errorMessage_object:
  assumes "JSON_parse e b = Inr (JObj kvs)"
  shows "errorMessage e b =
           (if truthy (map_of kvs ''message'') then js_template (map_of kvs ''message'')
            else if truthy (map_of kvs ''code'') then js_template (map_of kvs ''code'')
            else b)"
  using assms by (simp add: errorMessage_def or_else_def js_template_def)

lemma errorMessage_not_json:
  assumes "JSON_parse e b = Inl m"
  shows "errorMessage e b = b"
  using assms by (simp add: errorMessage_def)

lemma uploadMedia_error:
  assumes "fetch e tr
             \<lparr>req_method = ''POST'', url = apiBase c @ ''/media'',
              req_headers = [(''Authorization'', getAuthHeader e c)],
              body = Some (FormBody (upload_form file filename contentType options))\<rparr> = Inr r"
    and "\<not> ok r"
  shows "fst (uploadMedia e c file filename contentType options tr) =
           Inl (api_error (status r) (body_text r))"
  using assms by (simp add: uploadMedia_def do_fetch_def)

lemma sample_parse_bad_request:
  "sample_parse bad_request_body =
     Inr (JObj [(''message'', JStr ''bad request''), (''code'', JStr ''rest_invalid'')])"
  by (simp add: sample_parse_def)

lemma sample_parse_empty_message:
  "sample_parse empty_message_body =
     Inr (JObj [(''message'', JStr []), (''code'', JStr ''rest_invalid'')])"
  by (simp add: sample_parse_def bad_request_body_def empty_message_body_def quoted_def)

lemma plain_response_fields [simp]:
  "status (plain_response st b) = st"
  "body_text (plain_response st b) = b"
  "res_headers (plain_response st b) = Map.empty"
  by (simp_all add: plain_response_def)

lemma four_hundred: "string_of_nat 400 = ''400''"
  by (simp add: string_of_nat.simps)

text \<open>
  On the JSON paths an empty \<open>message\<close> is passed over like a missing one, since
  \<open>||\<close> tests truthiness: the body \<open>{"message":"","code":"rest_invalid"}\<close> surfaces
  \<open>rest_invalid\<close>.
\<close>

lemma request_empty_message:
  "fst (request (answering (plain_response 400 empty_message_body)) sample_client ''/posts/7''
          GET []) = Inl (Error ''WordPress API error (400): rest_invalid'')"
  by (simp add: request_error[where r = "plain_response 400 empty_message_body"]
      answering_def ok_def api_error_def four_hundred
      errorMessage_object[where kvs = "[(''message'', JStr []), (''code'', JStr ''rest_invalid'')]"]
      sample_parse_empty_message js_template_def)

text \<open>
  Claim C1 does not hold of the upload path. The server answers a media upload with
  status 400 and the body \<open>{"message":"bad request","code":"rest_invalid"}\<close>.
  \<open>uploadMedia\<close> raises an error whose message carries the status and the raw body: it
  never parses the body, so the \<open>message\<close> field is not extracted. On the same
  response \<open>request\<close> (and \<open>requestWithHeaders\<close>) raise the message
  \<open>bad request\<close>, as the claim says every path does.
\<close>

theorem uploadMedia_raw_error_body:
  "fst (uploadMedia (answering (plain_response 400 bad_request_body)) sample_client
          ''bytes'' ''a.png'' ''image/png''
          \<lparr>title = None, caption = None, description = None, alt_text = None, post = None\<rparr> [])
     = Inl (Error (''WordPress API error (400): '' @ bad_request_body)) \<and>
   ''WordPress API error (400): '' @ bad_request_body \<noteq> ''WordPress API error (400): bad request'' \<and>
   fst (request (answering (plain_response 400 bad_request_body)) sample_client ''/media/7''
          GET [])
     = Inl (Error ''WordPress API error (400): bad request'') \<and>
   fst (requestWithHeaders (answering (plain_response 400 bad_request_body)) sample_client
          ''/media'' GET [])
     = Inl (Error ''WordPress API error (400): bad request'')"
proof -
  let ?r = "plain_response 400 bad_request_body"
  have bad: "\<not> ok ?r" by (simp add: ok_def)
  have msg: "errorMessage (answering ?r) (body_text ?r) = ''bad request''"
    by (simp add: errorMessage_object
          [where kvs = "[(''message'', JStr ''bad request''), (''code'', JStr ''rest_invalid'')]"]
        answering_def sample_parse_bad_request js_template_def)
  have upload: "fst (uploadMedia (answering ?r) sample_client ''bytes'' ''a.png'' ''image/png''
          \<lparr>title = None, caption = None, description = None, alt_text = None, post = None\<rparr> [])
     = Inl (Error (''WordPress API error (400): '' @ bad_request_body))"
    using bad
    by (simp add: uploadMedia_error[where r = ?r] answering_def api_error_def four_hundred)
  have differ: "''WordPress API error (400): '' @ bad_request_body
      \<noteq> ''WordPress API error (400): bad request''"
    by (simp add: bad_request_body_def)
  have json1: "fst (request (answering ?r) sample_client ''/media/7'' GET [])
     = Inl (Error ''WordPress API error (400): bad request'')"
    using bad msg
    by (simp add: request_error[where r = ?r] answering_def api_error_def four_hundred)
  have json2: "fst (requestWithHeaders (answering ?r) sample_client ''/media'' GET [])
     = Inl (Error ''WordPress API error (400): bad request'')"
    using bad msg
    by (simp add: requestWithHeaders_error[where r = ?r] answering_def api_error_def
        four_hundred)
  from upload differ json1 json2 show ?thesis by simp
qed

subsection \<open>The pagination headers\<close>

lemma trim_start_Nil: "trim_start [] = []"
  by (simp add: trim_start.simps white_space_length_def)

lemma trim_start_plain:
  "(of_char c :: nat) < 128 \<Longrightarrow> (of_char c :: nat) \<notin> set [9, 10, 11, 12, 13, 32] \<Longrightarrow>
   trim_start (c # s) = c # s"
  by (subst trim_start.simps) (auto simp: white_space_length_def Let_def)

lemma trim_start_ascii_space:
  "(of_char c :: nat) \<in> set [9, 10, 11, 12, 13, 32] \<Longrightarrow> trim_start (c # s) = trim_start s"
  by (subst trim_start.simps) (auto simp: white_space_length_def Let_def)

lemma trim_start_nbsp: "trim_start (CHR 0xC2 # CHR 0xA0 # s) = trim_start s"
  by (subst trim_start.simps) (simp add: white_space_length_def Let_def)

lemma digit_plain:
  "is_digit c \<Longrightarrow> c \<noteq> CHR ''-'' \<and> c \<noteq> CHR ''+''"
  by (auto simp: is_digit_def)

lemma takeWhile_run:
  "list_all P ds \<Longrightarrow> rest = [] \<or> \<not> P (hd rest) \<Longrightarrow> takeWhile P (ds @ rest) = ds"
  by (cases rest) (auto simp: list_all_iff takeWhile_append2)

lemma parseInt_number:
  assumes "trim_start v = sg @ ds @ rest" and "sg \<in> set [[], ''+'', ''-'']"
    and "ds \<noteq> []" and "list_all is_digit ds" and "rest = [] \<or> \<not> is_digit (hd rest)"
  shows "parseInt v =
           (if digits_value ds \<le> 9007199254740992
            then Num ((if sg = ''-'' then - 1 else 1) * int (digits_value ds))
            else Rounded ((if sg = ''-'' then - 1 else 1) * int (digits_value ds)))"
proof -
  from assms(3,4) obtain d ds' where ds: "ds = d # ds'" and d: "is_digit d"
    by (cases ds) auto
  have run: "takeWhile is_digit (ds @ rest) = ds"
    using assms(4,5) by (rule takeWhile_run)
  from assms(2) consider "sg = []" | "sg = ''+''" | "sg = ''-''" by auto
  then show ?thesis
  proof cases
    case 1
    then show ?thesis
      using assms(1,3) run digit_plain[OF d]
      by (simp add: parseInt_def startsWith_def Let_def ds)
  next
    case 2
    then show ?thesis
      using assms(1,3) run by (simp add: parseInt_def startsWith_def Let_def)
  next
    case 3
    then show ?thesis
      using assms(1,3) run by (simp add: parseInt_def startsWith_def Let_def)
  qed
qed

lemma parseInt_NaN:
  assumes "trim_start v = sg @ rest" and "sg \<in> set [[], ''+'', ''-'']"
    and "rest = [] \<or> \<not> is_digit (hd rest)"
    and "sg = [] \<longrightarrow> rest = [] \<or> hd rest \<notin> set ''+-''"
  shows "parseInt v = NaN"
proof -
  have none: "takeWhile is_digit rest = []"
    using assms(3) by (cases rest) auto
  from assms(2) consider "sg = []" | "sg = ''+''" | "sg = ''-''" by auto
  then show ?thesis
  proof cases
    case 1
    then show ?thesis
      using assms(1,4) none by (cases rest) (auto simp: parseInt_def startsWith_def Let_def)
  next
    case 2
    then show ?thesis
      using assms(1) none by (simp add: parseInt_def startsWith_def Let_def)
  next
    case 3
    then show ?thesis
      using assms(1) none by (simp add: parseInt_def startsWith_def Let_def)
  qed
qed

lemma parseInt_zero: "parseInt ''0'' = Num 0"
  using parseInt_number[of "''0''" "[]" "''0''" "[]"]
  by (simp add: trim_start_plain is_digit_def digits_value_def)

lemma parseInt_abc: "parseInt ''abc'' = NaN"
  using parseInt_NaN[of "''abc''" "[]" "''abc''"]
  by (simp add: trim_start_plain is_digit_def)

text \<open>
  Claim C2, as stated, fails: a header that holds no number is not resolved to 0. For
  \<open>x-wp-total: abc\<close> the call returns normally, but \<open>parseInt\<close> yields \<open>NaN\<close>,
  which is neither 0 nor an integer; the default \<open>'0'\<close> replaces only a missing or empty
  header.
\<close>

theorem malformed_total_counterexample:
  "fst (listPosts
          (answering \<lparr>status = 200, body_text = ''[]'',
                      res_headers = [''x-wp-total'' \<mapsto> ''abc'']\<rparr>)
          sample_client [] [])
     = Inr \<lparr>data = JArr [], total = NaN, totalPages = Num 0\<rparr>"
  by (simp add: listPosts_def requestWithHeaders_def do_fetch_def answering_def ok_def
      sample_parse_def bad_request_body_def empty_message_body_def quoted_def
      header_or_zero_def parseInt_zero parseInt_abc)

text \<open>
  Claim C2, amended. A list request that succeeds returns the decoded body with
  \<open>total\<close> and \<open>totalPages\<close> read by \<open>parseInt\<close> from \<open>x-wp-total\<close> and
  \<open>x-wp-totalpages\<close>, whatever these headers hold: no header value makes the call
  fail. A missing or empty header gives 0. Otherwise leading white space is skipped and
  one sign is read. When decimal digits follow, the result is the integer they denote,
  negated after \<open>-\<close>, and what follows the digits is ignored (beyond \<open>2^53\<close> the
  result is that integer rounded to a Number). When no digit follows, the result is
  \<open>NaN\<close>. ASCII white space and U+00A0 are skipped; a string that starts with any
  other ASCII character has no white space to skip.
\<close>

theorem pagination_totals:
  assumes "fetch e tr (json_request e c endpoint options) = Inr r"
    and "ok r"
    and "JSON_parse e (body_text r) = Inr d"
  shows
    "fst (requestWithHeaders e c endpoint options tr) =
       Inr \<lparr>data = d,
            total = parseInt (header_or_zero r ''x-wp-total''),
            totalPages = parseInt (header_or_zero r ''x-wp-totalpages'')\<rparr> \<and>
     (\<forall>name. res_headers r name = None \<or> res_headers r name = Some [] \<longrightarrow>
        parseInt (header_or_zero r name) = Num 0) \<and>
     (\<forall>name v sg ds rest.
        res_headers r name = Some v \<and> v \<noteq> [] \<and> trim_start v = sg @ ds @ rest \<and>
        sg \<in> set [[], ''+'', ''-''] \<and> ds \<noteq> [] \<and> list_all is_digit ds \<and>
        (rest = [] \<or> \<not> is_digit (hd rest)) \<longrightarrow>
        parseInt (header_or_zero r name) =
          (if digits_value ds \<le> 9007199254740992
           then Num ((if sg = ''-'' then - 1 else 1) * int (digits_value ds))
           else Rounded ((if sg = ''-'' then - 1 else 1) * int (digits_value ds)))) \<and>
     (\<forall>name v sg rest.
        res_headers r name = Some v \<and> v \<noteq> [] \<and> trim_start v = sg @ rest \<and>
        sg \<in> set [[], ''+'', ''-''] \<and> (rest = [] \<or> \<not> is_digit (hd rest)) \<and>
        (sg = [] \<longrightarrow> rest = [] \<or> hd rest \<notin> set ''+-'') \<longrightarrow>
        parseInt (header_or_zero r name) = NaN) \<and>
     (\<forall>ch s. (of_char ch :: nat) \<in> set [9, 10, 11, 12, 13, 32] \<longrightarrow>
        trim_start (ch # s) = trim_start s) \<and>
     (\<forall>s. trim_start (CHR 0xC2 # CHR 0xA0 # s) = trim_start s) \<and>
     (\<forall>ch s. (of_char ch :: nat) < 128 \<and> (of_char ch :: nat) \<notin> set [9, 10, 11, 12, 13, 32] \<longrightarrow>
        trim_start (ch # s) = ch # s)"
proof -
  have result: "fst (requestWithHeaders e c endpoint options tr) =
       Inr \<lparr>data = d,
            total = parseInt (header_or_zero r ''x-wp-total''),
            totalPages = parseInt (header_or_zero r ''x-wp-totalpages'')\<rparr>"
    using assms by (simp add: requestWithHeaders_def do_fetch_def)
  have missing: "\<forall>name. res_headers r name = None \<or> res_headers r name = Some [] \<longrightarrow>
        parseInt (header_or_zero r name) = Num 0"
    by (auto simp: header_or_zero_def parseInt_zero)
  have header: "header_or_zero r name = v" if "res_headers r name = Some v" "v \<noteq> []"
    for name v
    using that by (simp add: header_or_zero_def)
  have numbers: "\<forall>name v sg ds rest.
        res_headers r name = Some v \<and> v \<noteq> [] \<and> trim_start v = sg @ ds @ rest \<and>
        sg \<in> set [[], ''+'', ''-''] \<and> ds \<noteq> [] \<and> list_all is_digit ds \<and>
        (rest = [] \<or> \<not> is_digit (hd rest)) \<longrightarrow>
        parseInt (header_or_zero r name) =
          (if digits_value ds \<le> 9007199254740992
           then Num ((if sg = ''-'' then - 1 else 1) * int (digits_value ds))
           else Rounded ((if sg = ''-'' then - 1 else 1) * int (digits_value ds)))"
    using header parseInt_number by metis
  have malformed: "\<forall>name v sg rest.
        res_headers r name = Some v \<and> v \<noteq> [] \<and> trim_start v = sg @ rest \<and>
        sg \<in> set [[], ''+'', ''-''] \<and> (rest = [] \<or> \<not> is_digit (hd rest)) \<and>
        (sg = [] \<longrightarrow> rest = [] \<or> hd rest \<notin> set ''+-'') \<longrightarrow>
        parseInt (header_or_zero r name) = NaN"
    using header parseInt_NaN by metis
  have skipping: "\<forall>ch s. (of_char ch :: nat) \<in> set [9, 10, 11, 12, 13, 32] \<longrightarrow>
        trim_start (ch # s) = trim_start s"
    "\<forall>s. trim_start (CHR 0xC2 # CHR 0xA0 # s) = trim_start s"
    "\<forall>ch s. (of_char ch :: nat) < 128 \<and> (of_char ch :: nat) \<notin> set [9, 10, 11, 12, 13, 32] \<longrightarrow>
        trim_start (ch # s) = ch # s"
    using trim_start_ascii_space trim_start_nbsp trim_start_plain by blast+
  show ?thesis
    by (intro conjI) (rule result missing numbers malformed skipping)+
qed

theorem pagination_totals_witness:
  "ok \<lparr>status = 200, body_text = ''[]'', res_headers = [''x-wp-total'' \<mapsto> ''42'', ''x-wp-totalpages'' \<mapsto> ''3'']\<rparr> \<and>
   fst (listPosts
          (answering \<lparr>status = 200, body_text = ''[]'', res_headers = [''x-wp-total'' \<mapsto> ''42'', ''x-wp-totalpages'' \<mapsto> ''3'']\<rparr>)
          sample_client [] [])
     = Inr \<lparr>data = JArr [], total = Num 42, totalPages = Num 3\<rparr> \<and>
   fst (listPosts
          (answering \<lparr>status = 200, body_text = ''[]'', res_headers = [''x-wp-totalpages'' \<mapsto> ''x7'']\<rparr>)
          sample_client [] [])
     = Inr \<lparr>data = JArr [], total = Num 0, totalPages = NaN\<rparr> \<and>
   fst (listPosts
          (answering \<lparr>status = 200, body_text = ''[]'', res_headers = [''x-wp-total'' \<mapsto> ''12abc'', ''x-wp-totalpages'' \<mapsto> ''-abc'']\<rparr>)
          sample_client [] [])
     = Inr \<lparr>data = JArr [], total = Num 12, totalPages = NaN\<rparr> \<and>
   fst (listPosts
          (answering \<lparr>status = 200, body_text = ''[]'', res_headers = [''x-wp-total'' \<mapsto> [CHR 0xC2, CHR 0xA0, CHR ''4'', CHR ''2''],
                      ''x-wp-totalpages'' \<mapsto> ''9007199254740993'']\<rparr>)
          sample_client [] [])
     = Inr \<lparr>data = JArr [], total = Num 42, totalPages = Rounded 9007199254740993\<rparr> \<and>
   fst (listPosts
          (answering \<lparr>status = 200, body_text = ''[]'', res_headers = [''x-wp-total'' \<mapsto> '' -5'']\<rparr>)
          sample_client [] [])
     = Inr \<lparr>data = JArr [], total = Num (- 5), totalPages = Num 0\<rparr>"
proof -
  let ?a = "\<lparr>status = 200, body_text = ''[]'', res_headers = [''x-wp-total'' \<mapsto> ''42'', ''x-wp-totalpages'' \<mapsto> ''3'']\<rparr>"
  let ?b = "\<lparr>status = 200, body_text = ''[]'', res_headers = [''x-wp-totalpages'' \<mapsto> ''x7'']\<rparr>"
  let ?c = "\<lparr>status = 200, body_text = ''[]'', res_headers = [''x-wp-total'' \<mapsto> ''12abc'', ''x-wp-totalpages'' \<mapsto> ''-abc'']\<rparr>"
  let ?d = "\<lparr>status = 200, body_text = ''[]'', res_headers = [''x-wp-total'' \<mapsto> [CHR 0xC2, CHR 0xA0, CHR ''4'', CHR ''2''],
                      ''x-wp-totalpages'' \<mapsto> ''9007199254740993'']\<rparr>"
  let ?e = "\<lparr>status = 200, body_text = ''[]'', res_headers = [''x-wp-total'' \<mapsto> '' -5'']\<rparr>"
  have parsed: "sample_parse ''[]'' = Inr (JArr [])"
    by (simp add: sample_parse_def bad_request_body_def empty_message_body_def quoted_def)
  have sent: "fetch (answering r) [] (json_request (answering r) sample_client
      (listPosts_endpoint []) GET) = Inr r" for r
    by (simp add: answering_def)
  have fine: "ok ?a" "ok ?b" "ok ?c" "ok ?d" "ok ?e"
    by (simp_all add: ok_def)
  have body: "JSON_parse (answering ?a) (body_text ?a) = Inr (JArr [])"
    "JSON_parse (answering ?b) (body_text ?b) = Inr (JArr [])"
    "JSON_parse (answering ?c) (body_text ?c) = Inr (JArr [])"
    "JSON_parse (answering ?d) (body_text ?d) = Inr (JArr [])"
    "JSON_parse (answering ?e) (body_text ?e) = Inr (JArr [])"
    by (simp_all add: answering_def parsed)
  have digits: "is_digit CHR ''1''" "is_digit CHR ''2''" "is_digit CHR ''3''" "is_digit CHR ''4''"
    "is_digit CHR ''5''" "is_digit CHR ''9''" "is_digit CHR ''0''" "is_digit CHR ''7''"
    "\<not> is_digit CHR ''a''" "\<not> is_digit CHR ''x''"
    by (simp_all add: is_digit_def)
  have trimmed: "trim_start ''42'' = ''42''" "trim_start ''3'' = ''3''" "trim_start ''x7'' = ''x7''"
    "trim_start ''12abc'' = ''12abc''" "trim_start ''-abc'' = ''-abc''"
    "trim_start [CHR 0xC2, CHR 0xA0, CHR ''4'', CHR ''2''] = ''42''"
    "trim_start ''9007199254740993'' = ''9007199254740993''"
    "trim_start '' -5'' = ''-5''"
    by (simp_all add: trim_start_plain trim_start_nbsp trim_start_ascii_space)
  note A = pagination_totals[OF sent fine(1) body(1)]
  note B = pagination_totals[OF sent fine(2) body(2)]
  note C = pagination_totals[OF sent fine(3) body(3)]
  note D = pagination_totals[OF sent fine(4) body(4)]
  note E = pagination_totals[OF sent fine(5) body(5)]
  have a1: "parseInt (header_or_zero ?a ''x-wp-total'') = Num 42"
    using A[THEN conjunct2, THEN conjunct2, THEN conjunct1, rule_format,
        of "''x-wp-total''" "''42''" "[]" "''42''" "[]"]
    by (simp add: trimmed digits digits_value_def)
  have a2: "parseInt (header_or_zero ?a ''x-wp-totalpages'') = Num 3"
    using A[THEN conjunct2, THEN conjunct2, THEN conjunct1, rule_format,
        of "''x-wp-totalpages''" "''3''" "[]" "''3''" "[]"]
    by (simp add: trimmed digits digits_value_def)
  have b1: "parseInt (header_or_zero ?b ''x-wp-total'') = Num 0"
    using B[THEN conjunct2, THEN conjunct1, rule_format, of "''x-wp-total''"]
    by simp
  have b2: "parseInt (header_or_zero ?b ''x-wp-totalpages'') = NaN"
    using B[THEN conjunct2, THEN conjunct2, THEN conjunct2, THEN conjunct1, rule_format,
        of "''x-wp-totalpages''" "''x7''" "[]" "''x7''"]
    by (simp add: trimmed digits)
  have c1: "parseInt (header_or_zero ?c ''x-wp-total'') = Num 12"
    using C[THEN conjunct2, THEN conjunct2, THEN conjunct1, rule_format,
        of "''x-wp-total''" "''12abc''" "[]" "''12''" "''abc''"]
    by (simp add: trimmed digits digits_value_def)
  have c2: "parseInt (header_or_zero ?c ''x-wp-totalpages'') = NaN"
    using C[THEN conjunct2, THEN conjunct2, THEN conjunct2, THEN conjunct1, rule_format,
        of "''x-wp-totalpages''" "''-abc''" "''-''" "''abc''"]
    by (simp add: trimmed digits)
  have d1: "parseInt (header_or_zero ?d ''x-wp-total'') = Num 42"
    using D[THEN conjunct2, THEN conjunct2, THEN conjunct1, rule_format,
        of "''x-wp-total''" "[CHR 0xC2, CHR 0xA0, CHR ''4'', CHR ''2'']" "[]" "''42''" "[]"]
    by (simp add: trimmed digits digits_value_def)
  have d2: "parseInt (header_or_zero ?d ''x-wp-totalpages'') = Rounded 9007199254740993"
    using D[THEN conjunct2, THEN conjunct2, THEN conjunct1, rule_format,
        of "''x-wp-totalpages''" "''9007199254740993''" "[]" "''9007199254740993''" "[]"]
    by (simp add: trimmed digits digits_value_def)
  have e1: "parseInt (header_or_zero ?e ''x-wp-total'') = Num (- 5)"
    using E[THEN conjunct2, THEN conjunct2, THEN conjunct1, rule_format,
        of "''x-wp-total''" "'' -5''" "''-''" "''5''" "[]"]
    by (simp add: trimmed digits digits_value_def)
  have e2: "parseInt (header_or_zero ?e ''x-wp-totalpages'') = Num 0"
    using E[THEN conjunct2, THEN conjunct1, rule_format, of "''x-wp-totalpages''"]
    by simp
  from A[THEN conjunct1] B[THEN conjunct1] C[THEN conjunct1] D[THEN conjunct1]
    E[THEN conjunct1] fine(1)
  show ?thesis
    by (simp add: listPosts_def a1 a2 b1 b2 c1 c2 d1 d2 e1 e2)
qed

section \<open>Properties of the access gate\<close>

lemma bearer_prefix: "startsWith (''Bearer '' @ t) ''Bearer ''"
  by (simp add: startsWith_def)

lemma providedKey_api_key:
  "x_api_key hs = Some k \<Longrightarrow> k \<noteq> [] \<Longrightarrow> providedKey hs = Some k"
  by (simp add: providedKey_def truthy_string_def)

lemma providedKey_bearer:
  "\<not> truthy_string (x_api_key hs) \<Longrightarrow> authorization hs = Some (''Bearer '' @ t) \<Longrightarrow>
   providedKey hs = Some t"
  using bearer_prefix[of t] by (simp add: providedKey_def)

lemma providedKey_bare:
  "\<not> truthy_string (x_api_key hs) \<Longrightarrow> authorization hs = Some a \<Longrightarrow> a \<noteq> [] \<Longrightarrow>
   \<not> startsWith a ''Bearer '' \<Longrightarrow> providedKey hs = Some a"
  by (simp add: providedKey_def truthy_string_def)

lemma providedKey_none:
  "\<not> truthy_string (x_api_key hs) \<Longrightarrow> \<not> truthy_string (authorization hs) \<Longrightarrow>
   \<not> truthy_string (providedKey hs)"
  by (auto simp: providedKey_def truthy_string_def startsWith_def split: option.splits)

text \<open>
  Claim C6. With no secret configured (the variable unset or empty) every request
  passes. With the secret \<open>S\<close> configured the candidate key is the \<open>X-API-Key\<close>
  header when the request carries one; failing that the rest of an \<open>Authorization\<close>
  header behind the prefix \<open>Bearer \<close>; failing that the \<open>Authorization\<close> header as
  it is. The request passes when the candidate equals \<open>S\<close> and is answered 403
  (Forbidden) when it differs; it is answered 401 (Unauthorized) when neither header is
  present (a header with an empty value, or an empty token behind \<open>Bearer \<close>, counts as
  absent).
\<close>

theorem requireApiKey_outcomes:
  "(\<not> truthy_string API_KEY \<longrightarrow> requireApiKey API_KEY hs = Next) \<and>
   (S \<noteq> [] \<longrightarrow>
     (\<forall>k. x_api_key hs = Some k \<and> k \<noteq> [] \<longrightarrow>
        requireApiKey (Some S) hs =
          (if k = S then Next else Respond (Status 403 ''Forbidden''))) \<and>
     (\<forall>t. \<not> truthy_string (x_api_key hs) \<and> authorization hs = Some (''Bearer '' @ t) \<and> t \<noteq> [] \<longrightarrow>
        requireApiKey (Some S) hs =
          (if t = S then Next else Respond (Status 403 ''Forbidden''))) \<and>
     (\<forall>a. \<not> truthy_string (x_api_key hs) \<and> authorization hs = Some a \<and> a \<noteq> [] \<and>
          \<not> startsWith a ''Bearer '' \<longrightarrow>
        requireApiKey (Some S) hs =
          (if a = S then Next else Respond (Status 403 ''Forbidden''))) \<and>
     (\<not> truthy_string (x_api_key hs) \<and>
        (\<not> truthy_string (authorization hs) \<or> authorization hs = Some ''Bearer '') \<longrightarrow>
        requireApiKey (Some S) hs = Respond (Status 401 ''Unauthorized'')))"
proof -
  have open_gate: "\<not> truthy_string API_KEY \<longrightarrow> requireApiKey API_KEY hs = Next"
    by (simp add: requireApiKey_def)
  have decide: "requireApiKey (Some S) hs =
      (if c = S then Next else Respond (Status 403 ''Forbidden''))"
    if "S \<noteq> []" "providedKey hs = Some c" "c \<noteq> []" for c
    using that by (simp add: requireApiKey_def truthy_string_def)
  have missing: "requireApiKey (Some S) hs = Respond (Status 401 ''Unauthorized'')"
    if "S \<noteq> []" "\<not> truthy_string (providedKey hs)"
    using that by (simp add: requireApiKey_def truthy_string_def)
  have empty_bearer: "\<not> truthy_string (providedKey hs)"
    if "\<not> truthy_string (x_api_key hs)" "authorization hs = Some ''Bearer ''"
    using that providedKey_bearer[of hs "[]"] by (simp add: truthy_string_def)
  have api_key: "\<forall>k. x_api_key hs = Some k \<and> k \<noteq> [] \<longrightarrow>
        requireApiKey (Some S) hs =
          (if k = S then Next else Respond (Status 403 ''Forbidden''))" if "S \<noteq> []"
    using that decide providedKey_api_key by blast
  have bearer: "\<forall>t. \<not> truthy_string (x_api_key hs) \<and>
          authorization hs = Some (''Bearer '' @ t) \<and> t \<noteq> [] \<longrightarrow>
        requireApiKey (Some S) hs =
          (if t = S then Next else Respond (Status 403 ''Forbidden''))" if "S \<noteq> []"
    using that decide providedKey_bearer by blast
  have bare: "\<forall>a. \<not> truthy_string (x_api_key hs) \<and> authorization hs = Some a \<and> a \<noteq> [] \<and>
          \<not> startsWith a ''Bearer '' \<longrightarrow>
        requireApiKey (Some S) hs =
          (if a = S then Next else Respond (Status 403 ''Forbidden''))" if "S \<noteq> []"
    using that decide providedKey_bare by blast
  have none: "\<not> truthy_string (x_api_key hs) \<and>
        (\<not> truthy_string (authorization hs) \<or> authorization hs = Some ''Bearer '') \<longrightarrow>
        requireApiKey (Some S) hs = Respond (Status 401 ''Unauthorized'')" if "S \<noteq> []"
    using that missing empty_bearer providedKey_none by blast
  from open_gate api_key bearer bare none show ?thesis by blast
qed

theorem requireApiKey_outcomes_witness:
  "requireApiKey None \<lparr>x_api_key = Some ''anything'', authorization = None\<rparr> = Next \<and>
   requireApiKey (Some ''S'') \<lparr>x_api_key = Some ''S'', authorization = None\<rparr> = Next \<and>
   requireApiKey (Some ''S'') \<lparr>x_api_key = None, authorization = Some ''Bearer S''\<rparr> = Next \<and>
   requireApiKey (Some ''S'') \<lparr>x_api_key = None, authorization = Some ''S''\<rparr> = Next \<and>
   requireApiKey (Some ''S'') \<lparr>x_api_key = None, authorization = None\<rparr> =
     Respond (Status 401 ''Unauthorized'') \<and>
   requireApiKey (Some ''S'') \<lparr>x_api_key = Some ''wrong'', authorization = None\<rparr> =
     Respond (Status 403 ''Forbidden'')"
proof -
  have secret: "''S'' \<noteq> []" by simp
  have "requireApiKey None \<lparr>x_api_key = Some ''anything'', authorization = None\<rparr> = Next"
    using requireApiKey_outcomes[where API_KEY = None, THEN conjunct1]
    by (simp add: truthy_string_def)
  moreover have
    "requireApiKey (Some ''S'') \<lparr>x_api_key = Some ''S'', authorization = None\<rparr> = Next"
    using requireApiKey_outcomes[where S = "''S''", THEN conjunct2, rule_format, OF secret,
        THEN conjunct1, rule_format, of _ "''S''"]
    by simp
  moreover have
    "requireApiKey (Some ''S'') \<lparr>x_api_key = None, authorization = Some ''Bearer S''\<rparr> = Next"
    using requireApiKey_outcomes[where S = "''S''", THEN conjunct2, rule_format, OF secret,
        THEN conjunct2, THEN conjunct1, rule_format, of _ "''S''"]
    by (simp add: truthy_string_def)
  moreover have
    "requireApiKey (Some ''S'') \<lparr>x_api_key = None, authorization = Some ''S''\<rparr> = Next"
    using requireApiKey_outcomes[where S = "''S''", THEN conjunct2, rule_format, OF secret,
        THEN conjunct2, THEN conjunct2, THEN conjunct1, rule_format, of _ "''S''"]
    by (simp add: truthy_string_def startsWith_def)
  moreover have
    "requireApiKey (Some ''S'') \<lparr>x_api_key = None, authorization = None\<rparr> =
       Respond (Status 401 ''Unauthorized'')"
    using requireApiKey_outcomes[where S = "''S''", THEN conjunct2, rule_format, OF secret,
        THEN conjunct2, THEN conjunct2, THEN conjunct2, rule_format]
    by (simp add: truthy_string_def)
  moreover have
    "requireApiKey (Some ''S'') \<lparr>x_api_key = Some ''wrong'', authorization = None\<rparr> =
       Respond (Status 403 ''Forbidden'')"
    using requireApiKey_outcomes[where S = "''S''", THEN conjunct2, rule_format, OF secret,
        THEN conjunct1, rule_format, of _ "''wrong''"]
    by simp
  ultimately show ?thesis by simp
qed

section \<open>Properties of the session registry\<close>

lemma sse_handler_registers:
  "sseTransports (snd (sse_handler sessionId transport connect reg)) =
     (sseTransports reg)(sessionId \<mapsto> transport)"
  by (simp add: sse_handler_def Let_def split: option.splits prod.splits)

lemma sse_handler_closed:
  "closed (snd (sse_handler sessionId transport connect reg)) = closed reg"
  by (simp add: sse_handler_def Let_def split: option.splits prod.splits)

text \<open>
  Claim C4, as stated, fails: the handler stores the transport with \<open>Map.set\<close> and
  tests nothing. When a second transport arrives with the identifier \<open>s\<close> of a
  registered one, the connection is accepted like any other (the reply is the open
  stream), the entry of \<open>s\<close> now holds the second transport, and the registry still has
  the single identifier \<open>s\<close>.
\<close>

theorem session_collision_counterexample:
  "sseTransports (snd (sse_handler ''s'' 1 None no_sessions)) ''s'' = Some 1 \<and>
   fst (sse_handler ''s'' 2 None (snd (sse_handler ''s'' 1 None no_sessions))) = Stream \<and>
   sseTransports (snd (sse_handler ''s'' 2 None (snd (sse_handler ''s'' 1 None no_sessions))))
     = [''s'' \<mapsto> 2]"
  by (simp add: sse_handler_def no_sessions_def)

text \<open>
  Claim C4, amended. Opening a transport stores it under its session identifier and
  leaves every other entry as it was; an entry already stored under that identifier is
  replaced by the new transport. Opening two transports whose identifiers differ yields
  two registered identifiers, each with its own transport.
\<close>

theorem session_open_registers:
  "sseTransports (snd (sse_handler sid t connect reg)) sid = Some t \<and>
   (\<forall>other. other \<noteq> sid \<longrightarrow>
      sseTransports (snd (sse_handler sid t connect reg)) other = sseTransports reg other) \<and>
   (sid \<noteq> sid' \<longrightarrow>
      sseTransports (snd (sse_handler sid' t' connect' (snd (sse_handler sid t connect reg)))) sid
        = Some t \<and>
      sseTransports (snd (sse_handler sid' t' connect' (snd (sse_handler sid t connect reg)))) sid'
        = Some t')"
  by (simp add: sse_handler_registers)

theorem session_open_registers_witness:
  "''a'' \<noteq> ''b'' \<and>
   sseTransports (snd (sse_handler ''b'' 2 None (snd (sse_handler ''a'' 1 None no_sessions)))) ''a''
     = Some 1 \<and>
   sseTransports (snd (sse_handler ''b'' 2 None (snd (sse_handler ''a'' 1 None no_sessions)))) ''b''
     = Some 2 \<and>
   sseTransports (snd (sse_handler ''b'' 2 None (snd (sse_handler ''a'' 1 None no_sessions)))) ''c''
     = None"
proof -
  have differ: "''a'' \<noteq> ''b''" "''c'' \<noteq> ''b''" "''c'' \<noteq> ''a''" by simp_all
  note first = session_open_registers
    [where sid = "''a''" and t = 1 and connect = None and reg = no_sessions
       and sid' = "''b''" and t' = 2 and connect' = None]
  note second = session_open_registers
    [where sid = "''b''" and t = 2 and connect = None
       and reg = "snd (sse_handler ''a'' 1 None no_sessions)"]
  have "sseTransports (snd (sse_handler ''a'' 1 None no_sessions)) ''c'' = None"
    using first[THEN conjunct2, THEN conjunct1, rule_format, OF differ(3)]
    by (simp add: no_sessions_def)
  then have other: "sseTransports
      (snd (sse_handler ''b'' 2 None (snd (sse_handler ''a'' 1 None no_sessions)))) ''c'' = None"
    using second[THEN conjunct2, THEN conjunct1, rule_format, OF differ(2)] by simp
  from first[THEN conjunct2, THEN conjunct2, rule_format, OF differ(1)] other differ(1)
  show ?thesis by simp
qed

text \<open>
  Claim C5, as stated, fails for the empty identifier: it is not open, yet a message
  routed to it is answered 400 (missing parameter) by the guard that precedes the lookup,
  not 404.
\<close>

theorem empty_session_id_counterexample:
  "sseTransports no_sessions [] = None \<and>
   post_messages None \<lparr>x_api_key = None, authorization = None\<rparr> (Some []) no_sessions =
     Status 400 ''Missing sessionId parameter'' \<and>
   post_messages None \<lparr>x_api_key = None, authorization = None\<rparr> (Some []) no_sessions \<noteq>
     Status 404 ''Session not found''"
  by (simp add: post_messages_def requireApiKey_def truthy_string_def messages_handler_def
      no_sessions_def)

text \<open>
  Claim C5, amended. For every non-empty session identifier, routing a message answers
  404 (session not found) exactly when the identifier has no entry in the registry, and
  otherwise hands the message to the registered transport. So it answers 404 when
  nothing was ever opened, and 404 again after the session was opened (which routes to
  its transport) and then closed. Routing with a missing or an empty identifier answers
  400 (missing parameter), whatever the registry holds. Closing a session a second time
  changes nothing. The endpoint \<open>POST /messages\<close> answers what the access gate
  answers when the gate rejects the request, and routes the message otherwise.
\<close>

theorem route_not_found_iff_not_open:
  "(sid \<noteq> [] \<longrightarrow>
      (messages_handler (Some sid) reg = Status 404 ''Session not found''
         \<longleftrightarrow> sseTransports reg sid = None) \<and>
      (\<forall>t. sseTransports reg sid = Some t \<longrightarrow> messages_handler (Some sid) reg = Forwarded t) \<and>
      messages_handler (Some sid) no_sessions = Status 404 ''Session not found'' \<and>
      messages_handler (Some sid) (snd (sse_handler sid t connect reg)) = Forwarded t \<and>
      messages_handler (Some sid) (on_close sid t (snd (sse_handler sid t connect reg)))
        = Status 404 ''Session not found'') \<and>
   messages_handler None reg = Status 400 ''Missing sessionId parameter'' \<and>
   messages_handler (Some []) reg = Status 400 ''Missing sessionId parameter'' \<and>
   on_close sid t (on_close sid t reg) = on_close sid t reg \<and>
   post_messages API_KEY hs sessionId reg =
     (case requireApiKey API_KEY hs of
        Next \<Rightarrow> messages_handler sessionId reg
      | Respond r \<Rightarrow> r)"
proof -
  have route: "messages_handler (Some sid) r =
      (case sseTransports r sid of
         None \<Rightarrow> Status 404 ''Session not found''
       | Some transport \<Rightarrow> Forwarded transport)" if "sid \<noteq> []" for r
    using that by (simp add: messages_handler_def)
  have closed_entry: "sseTransports (on_close sid t r) sid = None" for r
    by (simp add: on_close_def)
  have routing: "sid \<noteq> [] \<longrightarrow>
      (messages_handler (Some sid) reg = Status 404 ''Session not found''
         \<longleftrightarrow> sseTransports reg sid = None) \<and>
      (\<forall>t. sseTransports reg sid = Some t \<longrightarrow> messages_handler (Some sid) reg = Forwarded t) \<and>
      messages_handler (Some sid) no_sessions = Status 404 ''Session not found'' \<and>
      messages_handler (Some sid) (snd (sse_handler sid t connect reg)) = Forwarded t \<and>
      messages_handler (Some sid) (on_close sid t (snd (sse_handler sid t connect reg)))
        = Status 404 ''Session not found''"
    by (simp add: route closed_entry sse_handler_registers no_sessions_def split: option.splits)
  have missing: "messages_handler None reg = Status 400 ''Missing sessionId parameter''"
    "messages_handler (Some []) reg = Status 400 ''Missing sessionId parameter''"
    by (simp_all add: messages_handler_def)
  have twice: "on_close sid t (on_close sid t reg) = on_close sid t reg"
    by (simp add: on_close_def)
  have endpoint: "post_messages API_KEY hs sessionId reg =
     (case requireApiKey API_KEY hs of
        Next \<Rightarrow> messages_handler sessionId reg
      | Respond r \<Rightarrow> r)"
    by (simp add: post_messages_def split: middleware.splits)
  from routing missing twice endpoint show ?thesis by (intro conjI)
qed

theorem route_not_found_iff_not_open_witness:
  "''abc'' \<noteq> [] \<and>
   messages_handler (Some ''abc'') no_sessions = Status 404 ''Session not found'' \<and>
   messages_handler (Some ''abc'') (snd (sse_handler ''abc'' 5 None no_sessions)) = Forwarded 5 \<and>
   messages_handler (Some ''abc'')
     (on_close ''abc'' 5 (snd (sse_handler ''abc'' 5 None no_sessions)))
     = Status 404 ''Session not found'' \<and>
   post_messages (Some ''S'') \<lparr>x_api_key = Some ''S'', authorization = None\<rparr> (Some ''abc'')
     (snd (sse_handler ''abc'' 5 None no_sessions)) = Forwarded 5 \<and>
   post_messages (Some ''S'') \<lparr>x_api_key = Some ''S'', authorization = None\<rparr> (Some ''abc'')
     no_sessions = Status 404 ''Session not found'' \<and>
   post_messages (Some ''S'') \<lparr>x_api_key = Some ''S'', authorization = None\<rparr> None
     (snd (sse_handler ''abc'' 5 None no_sessions)) = Status 400 ''Missing sessionId parameter'' \<and>
   post_messages (Some ''S'') \<lparr>x_api_key = Some ''wrong'', authorization = None\<rparr> (Some ''abc'')
     (snd (sse_handler ''abc'' 5 None no_sessions)) = Status 403 ''Forbidden''"
proof -
  have sid: "''abc'' \<noteq> []" by simp
  have gate: "requireApiKey (Some ''S'') \<lparr>x_api_key = Some ''S'', authorization = None\<rparr> = Next"
    "requireApiKey (Some ''S'') \<lparr>x_api_key = Some ''wrong'', authorization = None\<rparr> =
       Respond (Status 403 ''Forbidden'')"
    by (simp_all add: requireApiKey_def providedKey_def truthy_string_def)
  note routed = route_not_found_iff_not_open
      [where sid = "''abc''" and t = 5 and connect = None and reg = no_sessions,
        THEN conjunct1, THEN mp, OF sid]
  note opened = route_not_found_iff_not_open
      [where reg = "snd (sse_handler ''abc'' 5 None no_sessions)" and API_KEY = "Some ''S''"]
  note never = route_not_found_iff_not_open
      [where reg = no_sessions and API_KEY = "Some ''S''"]
  have pass: "post_messages (Some ''S'') \<lparr>x_api_key = Some ''S'', authorization = None\<rparr>
      sessionId (snd (sse_handler ''abc'' 5 None no_sessions)) =
      messages_handler sessionId (snd (sse_handler ''abc'' 5 None no_sessions))" for sessionId
    using opened[where hs = "\<lparr>x_api_key = Some ''S'', authorization = None\<rparr>"
        and sessionId = sessionId, THEN conjunct2, THEN conjunct2, THEN conjunct2, THEN conjunct2]
    by (simp add: gate)
  have pass_never: "post_messages (Some ''S'') \<lparr>x_api_key = Some ''S'', authorization = None\<rparr>
      (Some ''abc'') no_sessions = messages_handler (Some ''abc'') no_sessions"
    using never[where hs = "\<lparr>x_api_key = Some ''S'', authorization = None\<rparr>"
        and sessionId = "Some ''abc''", THEN conjunct2, THEN conjunct2, THEN conjunct2,
        THEN conjunct2]
    by (simp add: gate)
  have reject: "post_messages (Some ''S'') \<lparr>x_api_key = Some ''wrong'', authorization = None\<rparr>
      (Some ''abc'') (snd (sse_handler ''abc'' 5 None no_sessions)) = Status 403 ''Forbidden''"
    using opened[where hs = "\<lparr>x_api_key = Some ''wrong'', authorization = None\<rparr>"
        and sessionId = "Some ''abc''", THEN conjunct2, THEN conjunct2, THEN conjunct2,
        THEN conjunct2]
    by (simp add: gate)
  have missing: "messages_handler None (snd (sse_handler ''abc'' 5 None no_sessions)) =
      Status 400 ''Missing sessionId parameter''"
    using opened[THEN conjunct2, THEN conjunct1] .
  from routed sid pass pass_never reject missing show ?thesis
    by simp
qed

end
